theory Spec2Isabelle
  imports Main "HOL-Library.Finite_Map"
begin

section \<open>Byte strings and Go maps\<close>

text \<open>
  Go's \<^verbatim>\<open>string\<close> and \<^verbatim>\<open>[]byte\<close> are byte sequences and the program converts
  freely between them, so both are \<^typ>\<open>string\<close> here. A Go \<^verbatim>\<open>map[int][]byte\<close> is a
  finite map with (possibly negative) integer keys; \<^verbatim>\<open>len(m)\<close> is the number of keys.
\<close>

type_synonym bytes = string

definition map_len :: "('k, 'v) fmap \<Rightarrow> nat" where
  "map_len m = fcard (fmdom m)"

text \<open>The slice expression \<^verbatim>\<open>data[lo:hi]\<close> for \<open>lo \<le> hi \<le> len(data)\<close>.\<close>

definition slice :: "'a list \<Rightarrow> nat \<Rightarrow> nat \<Rightarrow> 'a list" where
  "slice xs lo hi = take (hi - lo) (drop lo xs)"

section \<open>Strings\<close>

text \<open>\<^verbatim>\<open>strings.HasPrefix\<close>, \<^verbatim>\<open>strings.TrimPrefix\<close>, \<^verbatim>\<open>strings.Split\<close> on a one-byte
  separator (the empty string splits into one empty field), \<^verbatim>\<open>strings.Join\<close> and
  \<^verbatim>\<open>strings.Fields\<close> (on ASCII white space).\<close>

definition HasPrefix :: "string \<Rightarrow> string \<Rightarrow> bool" where
  "HasPrefix s p = (take (length p) s = p)"

definition TrimPrefix :: "string \<Rightarrow> string \<Rightarrow> string" where
  "TrimPrefix s p = (if HasPrefix s p then drop (length p) s else s)"

fun Split :: "string \<Rightarrow> char \<Rightarrow> string list" where
  "Split [] sep = [[]]"
| "Split (c # cs) sep =
     (if c = sep then [] # Split cs sep
      else (case Split cs sep of [] \<Rightarrow> [[c]] | f # fs \<Rightarrow> (c # f) # fs))"

fun Join :: "string list \<Rightarrow> string \<Rightarrow> string" where
  "Join [] sep = []"
| "Join [x] sep = x"
| "Join (x # y # ys) sep = x @ sep @ Join (y # ys) sep"

definition isSpace :: "char \<Rightarrow> bool" where
  "isSpace c = (c \<in> set [CHR '' '', CHR 0x09, CHR 0x0A, CHR 0x0B, CHR 0x0C, CHR 0x0D])"

function Fields :: "string \<Rightarrow> string list" where
  "Fields [] = []"
| "Fields (c # cs) =
     (if isSpace c then Fields cs
      else (c # takeWhile (\<lambda>x. \<not> isSpace x) cs) # Fields (dropWhile (\<lambda>x. \<not> isSpace x) cs))"
  by pat_completeness auto
termination
  by (relation "measure length") (auto simp: length_dropWhile_le less_Suc_eq_le)

text \<open>\<^verbatim>\<open>fmt.Sprintf("%d", n)\<close> and \<^verbatim>\<open>fmt.Sprintf("%x", bs)\<close>.\<close>

function decimal :: "nat \<Rightarrow> string" where
  "decimal n =
     (if n < 10 then [''0123456789'' ! n] else decimal (n div 10) @ [''0123456789'' ! (n mod 10)])"
  by pat_completeness auto
termination
  by (relation "measure id") auto

definition Itoa :: "int \<Rightarrow> string" where
  "Itoa i = (if i < 0 then CHR ''-'' # decimal (nat (- i)) else decimal (nat i))"

definition hexdigit :: "nat \<Rightarrow> char" where
  "hexdigit n = ''0123456789abcdef'' ! n"

definition hex :: "bytes \<Rightarrow> string" where
  "hex bs = concat (map (\<lambda>c. [hexdigit (of_char c div 16), hexdigit (of_char c mod 16)]) bs)"

section \<open>Integer division\<close>

text \<open>
  Go's \<^verbatim>\<open>/\<close> on \<^verbatim>\<open>int\<close> truncates towards zero and panics on a zero divisor. The
  quantities divided in this program are chunk counts times 100, far from the 64-bit
  bound, so \<^typ>\<open>int\<close> stands for Go's \<^verbatim>\<open>int\<close>.
\<close>

datatype panic = IntegerDivideByZero

definition go_div :: "int \<Rightarrow> int \<Rightarrow> panic + int" where
  "go_div a b =
     (if b = 0 then Inl IntegerDivideByZero
      else Inr (sgn a * sgn b * (\<bar>a\<bar> div \<bar>b\<bar>)))"

section \<open>Errors and the log\<close>

text \<open>The error values the program builds, named after their messages.\<close>

datatype go_error =
    ErrNoPublicKeyForPeer string
  | ErrEncryptionFailed
  | ErrSigningFailed
  | ErrMarshalPublicKey
  | ErrDecodeCiphertext
  | ErrDecryptionFailed
  | ErrDecodeSignature
  | ErrDecodeSenderPublicKey
  | ErrParseSenderPublicKey
  | ErrSenderPublicKeyNotRSA
  | ErrSignatureVerificationFailed
  | ErrDecodePeerPublicKeyPEM
  | ErrParsePeerPublicKey
  | ErrPeerPublicKeyNotRSA
  | ErrEncryptFileMessage go_error
  | ErrPeerNotFound string
  | ErrPeerSendChannelFull
  | ErrChannelFullFor string
  | ErrReadFile
  | ErrSendFileRequest go_error

text \<open>A \<^verbatim>\<open>log.Printf\<close> call is recorded as its format string and arguments.\<close>

datatype log_arg = Str string | Num int | Err go_error

type_synonym log_entry = "string \<times> log_arg list"

section \<open>Wire and state records\<close>

text \<open>\<^verbatim>\<open>Message\<close>, \<^verbatim>\<open>Peer\<close> (the connection as a handle, the \<^verbatim>\<open>Send\<close> channel as its
  buffered content) and the two JSON messages, with the fields of \<^verbatim>\<open>FileMessage\<close>
  (\<open>fm_\<close>) and \<^verbatim>\<open>VoiceMessage\<close> (\<open>vm_\<close>) named by their JSON tags.\<close>

record Message =
  SenderID :: string
  Content :: bytes
  FromPeerID :: string
  IsGossip :: bool

record Peer =
  Peer_ID :: string
  Conn :: nat
  Send :: "bytes list"
  Done :: bool

record EncryptedMessage =
  Ciphertext :: string
  Signature :: string
  SenderPubKey :: string
  Timestamp :: int
  MessageType :: string

record FileMessage =
  fm_type :: string
  fm_file_id :: string
  fm_file_name :: string
  fm_file_size :: int
  fm_chunk_index :: int
  fm_total_chunks :: int
  fm_data :: string
  fm_checksum :: string

record VoiceMessage =
  vm_type :: string
  vm_audio_data :: string
  vm_duration :: int
  vm_sample_rate :: int
  vm_format :: string

record FileTransfer =
  FileID :: string
  FileName :: string
  FileSize :: int
  Chunks :: "(int, bytes) fmap"
  TotalChunks :: int
  Status :: string
  Progress :: int
  PeerID :: string
  IsOutgoing :: bool
  FilePath :: string

section \<open>The libraries the program calls\<close>

text \<open>
  RSA keys as \<^verbatim>\<open>crypto/rsa\<close> has them (the private key embeds its public key), and the
  result of \<^verbatim>\<open>x509.ParsePKIXPublicKey\<close>, which may be a key of another algorithm.
\<close>

record rsa_PublicKey =
  rsa_N :: nat
  rsa_E :: nat

record rsa_PrivateKey =
  PublicKey :: rsa_PublicKey
  rsa_D :: nat

datatype crypto_PublicKey = RSAPublicKey rsa_PublicKey | OtherPublicKey bytes

text \<open>
  The standard-library functions the program calls are parameters of the model: the
  cryptographic primitives (\<open>rsa_EncryptOAEP\<close> takes the bytes it draws from
  \<^verbatim>\<open>rand.Reader\<close> as its first argument; SHA-256 is the hash throughout, the label is
  nil), the encoders, the JSON codecs of the three message structs, the file system and
  the dialler (a connection is a handle), and \<^verbatim>\<open>fmt.Sprintf\<close> where it renders a
  notification for the user.
\<close>

record cryptolib =
  rsa_EncryptOAEP :: "bytes \<Rightarrow> rsa_PublicKey \<Rightarrow> bytes \<Rightarrow> bytes option"
  rsa_DecryptOAEP :: "rsa_PrivateKey \<Rightarrow> bytes \<Rightarrow> bytes option"
  rsa_SignPKCS1v15 :: "rsa_PrivateKey \<Rightarrow> bytes \<Rightarrow> bytes option"
  rsa_VerifyPKCS1v15 :: "rsa_PublicKey \<Rightarrow> bytes \<Rightarrow> bytes \<Rightarrow> bool"
  sha256_Sum256 :: "bytes \<Rightarrow> bytes"
  md5_Sum :: "bytes \<Rightarrow> bytes"
  base64_EncodeToString :: "bytes \<Rightarrow> string"
  base64_DecodeString :: "string \<Rightarrow> bytes option"
  x509_MarshalPKIXPublicKey :: "rsa_PublicKey \<Rightarrow> bytes option"
  x509_ParsePKIXPublicKey :: "bytes \<Rightarrow> crypto_PublicKey option"
  pem_EncodeToMemory :: "string \<Rightarrow> bytes \<Rightarrow> bytes"
  pem_Decode :: "bytes \<Rightarrow> bytes option"

record golib = cryptolib +
  json_Marshal_FileMessage :: "FileMessage \<Rightarrow> bytes"
  json_Decode_FileMessage :: "bytes \<Rightarrow> FileMessage option"
  json_Marshal_EncryptedMessage :: "EncryptedMessage \<Rightarrow> bytes"
  json_Decode_EncryptedMessage :: "bytes \<Rightarrow> EncryptedMessage option"
  json_Marshal_VoiceMessage :: "VoiceMessage \<Rightarrow> bytes"
  json_Decode_VoiceMessage :: "bytes \<Rightarrow> VoiceMessage option"
  os_ReadFile :: "string \<Rightarrow> bytes option"
  os_MkdirAll :: "string \<Rightarrow> bool"
  os_WriteFile :: "string \<Rightarrow> bytes \<Rightarrow> bool"
  filepath_Base :: "string \<Rightarrow> string"
  filepath_Join :: "string \<Rightarrow> string \<Rightarrow> string"
  net_DialTimeout :: "string \<Rightarrow> nat option"
  fmt_Sprintf :: "string \<Rightarrow> log_arg list \<Rightarrow> string"

text \<open>
  \<^verbatim>\<open>json.Unmarshal\<close> scans its input before decoding and rejects any text whose first
  byte after white space cannot begin a JSON value; what it does with the rest is the
  decoder passed in.
\<close>

definition json_Unmarshal :: "(bytes \<Rightarrow> 'a option) \<Rightarrow> bytes \<Rightarrow> 'a option" where
  "json_Unmarshal decode text =
     (case dropWhile (\<lambda>c. c \<in> set [CHR '' '', CHR 0x09, CHR 0x0A, CHR 0x0D]) text of
        [] \<Rightarrow> None
      | c # _ \<Rightarrow>
          if c \<in> set ''{[-0123456789tfn'' \<or> c = CHR 0x22 then decode text else None)"

section \<open>file\_sharing.go: chunking\<close>

definition chunkSize :: nat where
  "chunkSize = 8192"

text \<open>
  The loop of \<^verbatim>\<open>splitIntoChunks\<close>: \<open>offset\<close> advances by \<open>chunkSize\<close>, \<open>chunkIndex\<close>
  by one, and each pass stores \<^verbatim>\<open>data[offset:end]\<close> under \<open>chunkIndex\<close>.
\<close>

function splitIntoChunks_loop ::
  "bytes \<Rightarrow> nat \<Rightarrow> int \<Rightarrow> (int, bytes) fmap \<Rightarrow> (int, bytes) fmap" where
  "splitIntoChunks_loop data offset chunkIndex chunks =
     (let totalSize = length data in
      if offset < totalSize then
        (let end0 = offset + chunkSize;
             end1 = (if end0 > totalSize then totalSize else end0)
         in splitIntoChunks_loop data (offset + chunkSize) (chunkIndex + 1)
              (fmupd chunkIndex (slice data offset end1) chunks))
      else chunks)"
  by pat_completeness auto
termination
  by (relation "measure (\<lambda>(data, offset, chunkIndex, chunks). length data - offset)")
     (auto simp: chunkSize_def)

definition splitIntoChunks :: "bytes \<Rightarrow> (int, bytes) fmap" where
  "splitIntoChunks data = splitIntoChunks_loop data 0 0 fmempty"

text \<open>
  The assembly loop of \<^verbatim>\<open>handleFileComplete\<close>: chunks \<open>i, i+1, \<dots>\<close> are appended to
  \<open>fileData\<close> for \<open>todo\<close> more indices; a missing index \<open>i\<close> ends the loop with
  \<open>Inl i\<close> and no file.
\<close>

fun assemble :: "(int, bytes) fmap \<Rightarrow> int \<Rightarrow> nat \<Rightarrow> bytes \<Rightarrow> int + bytes" where
  "assemble chunks i 0 fileData = Inr fileData"
| "assemble chunks i (Suc todo) fileData =
     (case fmlookup chunks i of
        None \<Rightarrow> Inl i
      | Some chunk \<Rightarrow> assemble chunks (i + 1) todo (fileData @ chunk))"

text \<open>The number of chunks that cover \<open>n\<close> bytes, and the \<open>j\<close>-th of them.\<close>

definition chunk_count :: "nat \<Rightarrow> nat" where
  "chunk_count n = (n + (chunkSize - 1)) div chunkSize"

definition chunk_at :: "'a list \<Rightarrow> nat \<Rightarrow> 'a list" where
  "chunk_at xs j = slice xs (j * chunkSize) (min (length xs) (j * chunkSize + chunkSize))"

section \<open>crypto.go\<close>

record CryptoManager =
  privateKey :: rsa_PrivateKey
  publicKey :: rsa_PublicKey
  peerKeys :: "string \<rightharpoonup> rsa_PublicKey"
  keysDir :: string

definition GetPublicKeyPEM :: "'a cryptolib_scheme \<Rightarrow> CryptoManager \<Rightarrow> go_error + string" where
  "GetPublicKeyPEM lib cm =
     (case x509_MarshalPKIXPublicKey lib (publicKey cm) of
        None \<Rightarrow> Inl ErrMarshalPublicKey
      | Some publicBytes \<Rightarrow> Inr (pem_EncodeToMemory lib ''PUBLIC KEY'' publicBytes))"

definition AddPeerKey ::
  "'a cryptolib_scheme \<Rightarrow> string \<Rightarrow> string \<Rightarrow> CryptoManager \<Rightarrow> go_error + CryptoManager" where
  "AddPeerKey lib peerID publicKeyPEM cm =
     (case pem_Decode lib publicKeyPEM of
        None \<Rightarrow> Inl ErrDecodePeerPublicKeyPEM
      | Some block \<Rightarrow>
          (case x509_ParsePKIXPublicKey lib block of
             None \<Rightarrow> Inl ErrParsePeerPublicKey
           | Some (OtherPublicKey other) \<Rightarrow> Inl ErrPeerPublicKeyNotRSA
           | Some (RSAPublicKey rsaPublicKey) \<Rightarrow>
               Inr (cm\<lparr>peerKeys := (peerKeys cm)(peerID \<mapsto> rsaPublicKey)\<rparr>)))"

text \<open>
  \<^verbatim>\<open>EncryptMessage\<close>: \<open>seed\<close> is what \<^verbatim>\<open>rsa.EncryptOAEP\<close> reads from \<^verbatim>\<open>rand.Reader\<close>,
  \<open>now\<close> is \<^verbatim>\<open>time.Now().Unix()\<close>.
\<close>

definition EncryptMessage ::
  "'a cryptolib_scheme \<Rightarrow> CryptoManager \<Rightarrow> bytes \<Rightarrow> int \<Rightarrow> string \<Rightarrow> bytes \<Rightarrow> string
     \<Rightarrow> go_error + EncryptedMessage" where
  "EncryptMessage lib cm seed now peerID plaintext messageType =
     (case peerKeys cm peerID of
        None \<Rightarrow> Inl (ErrNoPublicKeyForPeer peerID)
      | Some peerPublicKey \<Rightarrow>
          (case rsa_EncryptOAEP lib seed peerPublicKey plaintext of
             None \<Rightarrow> Inl ErrEncryptionFailed
           | Some ciphertext \<Rightarrow>
               (case rsa_SignPKCS1v15 lib (privateKey cm) (sha256_Sum256 lib plaintext) of
                  None \<Rightarrow> Inl ErrSigningFailed
                | Some signature \<Rightarrow>
                    (case GetPublicKeyPEM lib cm of
                       Inl err \<Rightarrow> Inl err
                     | Inr publicKeyPEM \<Rightarrow>
                         Inr \<lparr>Ciphertext = base64_EncodeToString lib ciphertext,
                              Signature = base64_EncodeToString lib signature,
                              SenderPubKey = publicKeyPEM,
                              Timestamp = now,
                              MessageType = messageType\<rparr>))))"

definition DecryptMessage ::
  "'a cryptolib_scheme \<Rightarrow> CryptoManager \<Rightarrow> EncryptedMessage \<Rightarrow> go_error + (bytes \<times> string)" where
  "DecryptMessage lib cm encMsg =
     (case base64_DecodeString lib (Ciphertext encMsg) of
        None \<Rightarrow> Inl ErrDecodeCiphertext
      | Some ciphertext \<Rightarrow>
          (case rsa_DecryptOAEP lib (privateKey cm) ciphertext of
             None \<Rightarrow> Inl ErrDecryptionFailed
           | Some plaintext \<Rightarrow>
               (case base64_DecodeString lib (Signature encMsg) of
                  None \<Rightarrow> Inl ErrDecodeSignature
                | Some signature \<Rightarrow>
                    (case pem_Decode lib (SenderPubKey encMsg) of
                       None \<Rightarrow> Inl ErrDecodeSenderPublicKey
                     | Some block \<Rightarrow>
                         (case x509_ParsePKIXPublicKey lib block of
                            None \<Rightarrow> Inl ErrParseSenderPublicKey
                          | Some (OtherPublicKey other) \<Rightarrow> Inl ErrSenderPublicKeyNotRSA
                          | Some (RSAPublicKey senderPublicKey) \<Rightarrow>
                              if rsa_VerifyPKCS1v15 lib senderPublicKey
                                   (sha256_Sum256 lib plaintext) signature
                              then Inr (plaintext, MessageType encMsg)
                              else Inl ErrSignatureVerificationFailed)))))"

section \<open>The node\<close>

text \<open>
  Goroutines the handlers start, and calls into parts of the program that are outside
  this model (audio, the terminal, process shutdown), recorded in the order made.
\<close>

datatype goroutine =
    Go_sendFileChunks string nat
  | Go_connectToPeer string
  | Go_handlePeer string

datatype call =
    Call_HandleVoiceMessage string VoiceMessage
  | Call_voiceManager_HandleCLICommand string
  | Call_showEnhancedHelp
  | Call_showHelp
  | Call_listPeers
  | Call_listDiscoveredPeers
  | Call_shutdown

text \<open>
  \<^verbatim>\<open>EnhancedNode\<close> with the \<^verbatim>\<open>Node\<close> it embeds, its \<^verbatim>\<open>CryptoManager\<close> and its
  \<^verbatim>\<open>FileTransferManager\<close>. A \<^verbatim>\<open>*FileTransfer\<close> is an address into \<open>heap\<close>, so that a
  goroutine and the \<open>activeTransfers\<close> map can share one record. Channels are the lists
  of what was sent on them and not yet received; \<open>dialed\<close> lists the addresses
  \<^verbatim>\<open>net.DialTimeout\<close> was called with and \<open>closedConns\<close> the connections closed.
  \<open>rand_Reader\<close> is the stream of random reads to come, \<open>time_Now\<close> the clock in
  nanoseconds. Pictographs at the head of a format string are left out.
\<close>

record EnhancedNode =
  ID :: string
  Peers :: "string \<rightharpoonup> Peer"
  KnownPeers :: "string \<rightharpoonup> bool"
  peerIDMap :: "string \<rightharpoonup> string"
  cryptoManager :: CryptoManager
  activeTransfers :: "string \<rightharpoonup> nat"
  heap :: "nat \<Rightarrow> FileTransfer"
  heap_next :: nat
  uiChannel :: "Message list"
  PeerListGossip :: "string list list"
  DiscoveredPeer :: "string list"
  NewPeer :: "Peer list"
  dialed :: "string list"
  closedConns :: "nat list"
  goroutines :: "goroutine list"
  calls :: "call list"
  logs :: "log_entry list"
  rand_Reader :: "nat \<Rightarrow> bytes"
  rand_reads :: nat
  time_Now :: int

definition logf :: "string \<Rightarrow> log_arg list \<Rightarrow> EnhancedNode \<Rightarrow> EnhancedNode" where
  "logf fmt args en = en\<lparr>logs := logs en @ [(fmt, args)]\<rparr>"

definition ui_send :: "Message \<Rightarrow> EnhancedNode \<Rightarrow> EnhancedNode" where
  "ui_send msg en = en\<lparr>uiChannel := uiChannel en @ [msg]\<rparr>"

definition system_message :: "string \<Rightarrow> bytes \<Rightarrow> Message" where
  "system_message sender content =
     \<lparr>SenderID = sender, Content = content, FromPeerID = [], IsGossip = False\<rparr>"

definition spawn :: "goroutine \<Rightarrow> EnhancedNode \<Rightarrow> EnhancedNode" where
  "spawn g en = en\<lparr>goroutines := goroutines en @ [g]\<rparr>"

definition record_call :: "call \<Rightarrow> EnhancedNode \<Rightarrow> EnhancedNode" where
  "record_call c en = en\<lparr>calls := calls en @ [c]\<rparr>"

text \<open>
  The non-blocking send \<^verbatim>\<open>select { case peer.Send <- data: ... default: ... }\<close> on the
  channel of capacity 10 that every \<^verbatim>\<open>Peer\<close> is made with: \<open>None\<close> when it is full.
\<close>

definition try_send :: "string \<Rightarrow> Peer \<Rightarrow> bytes \<Rightarrow> EnhancedNode \<Rightarrow> EnhancedNode option" where
  "try_send peerID peer payload en =
     (if length (Send peer) < 10
      then Some (en\<lparr>Peers := (Peers en)(peerID \<mapsto> peer\<lparr>Send := Send peer @ [payload]\<rparr>)\<rparr>)
      else None)"

text \<open>
  A call of \<^verbatim>\<open>EncryptMessage\<close> by the node: the seed is the next read of the random
  stream, consumed when the call gets as far as encrypting.
\<close>

definition node_EncryptMessage ::
  "golib \<Rightarrow> string \<Rightarrow> bytes \<Rightarrow> string \<Rightarrow> EnhancedNode \<Rightarrow> (go_error + EncryptedMessage) \<times> EnhancedNode" where
  "node_EncryptMessage lib peerID plaintext messageType en =
     (EncryptMessage lib (cryptoManager en) (rand_Reader en (rand_reads en))
        (time_Now en div 1000000000) peerID plaintext messageType,
      if peerKeys (cryptoManager en) peerID = None then en
      else en\<lparr>rand_reads := Suc (rand_reads en)\<rparr>)"

section \<open>file\_sharing.go: the transfer manager\<close>

definition update_transfer :: "nat \<Rightarrow> (FileTransfer \<Rightarrow> FileTransfer) \<Rightarrow> EnhancedNode \<Rightarrow> EnhancedNode" where
  "update_transfer a f en = en\<lparr>heap := (heap en)(a := f (heap en a))\<rparr>"

text \<open>\<^verbatim>\<open>&FileTransfer{...}\<close> followed by \<^verbatim>\<open>ftm.activeTransfers[fileID] = transfer\<close>.\<close>

definition store_transfer :: "FileTransfer \<Rightarrow> EnhancedNode \<Rightarrow> EnhancedNode" where
  "store_transfer transfer en =
     en\<lparr>heap := (heap en)(heap_next en := transfer),
        heap_next := Suc (heap_next en),
        activeTransfers := (activeTransfers en)(FileID transfer \<mapsto> heap_next en)\<rparr>"

definition delete_transfer :: "string \<Rightarrow> EnhancedNode \<Rightarrow> EnhancedNode" where
  "delete_transfer fileID en = en\<lparr>activeTransfers := (activeTransfers en)(fileID := None)\<rparr>"

definition zero_FileMessage :: FileMessage where
  "zero_FileMessage =
     \<lparr>fm_type = [], fm_file_id = [], fm_file_name = [], fm_file_size = 0, fm_chunk_index = 0,
      fm_total_chunks = 0, fm_data = [], fm_checksum = []\<rparr>"

definition generateFileID :: "EnhancedNode \<Rightarrow> string" where
  "generateFileID en = Itoa (time_Now en)"

definition sendFileMessage ::
  "golib \<Rightarrow> string \<Rightarrow> FileMessage \<Rightarrow> EnhancedNode \<Rightarrow> go_error option \<times> EnhancedNode" where
  "sendFileMessage lib peerID fileMsg en =
     (let msgData = json_Marshal_FileMessage lib fileMsg in
      case node_EncryptMessage lib peerID msgData ''file'' en of
        (Inl err, en1) \<Rightarrow> (Some (ErrEncryptFileMessage err), en1)
      | (Inr encryptedMsg, en1) \<Rightarrow>
          (let encryptedData = json_Marshal_EncryptedMessage lib encryptedMsg in
           case Peers en1 peerID of
             None \<Rightarrow> (Some (ErrPeerNotFound peerID), en1)
           | Some peer \<Rightarrow>
               (case try_send peerID peer (ID en1 @ ''|'' @ encryptedData) en1 of
                  Some en2 \<Rightarrow> (None, en2)
                | None \<Rightarrow> (Some ErrPeerSendChannelFull, en1))))"

definition SendFile ::
  "golib \<Rightarrow> string \<Rightarrow> string \<Rightarrow> EnhancedNode \<Rightarrow> go_error option \<times> EnhancedNode" where
  "SendFile lib peerID filePath en =
     (case os_ReadFile lib filePath of
        None \<Rightarrow> (Some ErrReadFile, en)
      | Some fileData \<Rightarrow>
          (let fileID = generateFileID en;
               fileName = filepath_Base lib filePath;
               chunks = splitIntoChunks fileData;
               transfer =
                 \<lparr>FileID = fileID, FileName = fileName, FileSize = int (length fileData),
                  Chunks = chunks, TotalChunks = int (map_len chunks), Status = ''pending'',
                  Progress = 0, PeerID = peerID, IsOutgoing = True, FilePath = filePath\<rparr>;
               en1 = store_transfer transfer en;
               requestMsg =
                 zero_FileMessage\<lparr>fm_type := ''request'', fm_file_id := fileID,
                   fm_file_name := fileName, fm_file_size := int (length fileData),
                   fm_total_chunks := int (map_len chunks)\<rparr>
           in case sendFileMessage lib peerID requestMsg en1 of
                (Some err, en2) \<Rightarrow>
                  (Some (ErrSendFileRequest err),
                   ui_send
                     (system_message ''SYSTEM''
                        (fmt_Sprintf lib ''Failed to send file request to %s: %v'' [Str peerID, Err err]))
                     (delete_transfer fileID en2))
              | (None, en2) \<Rightarrow>
                  (None,
                   logf ''File transfer request sent: %s (%d bytes)''
                     [Str fileName, Num (int (length fileData))] en2)))"

definition handleFileRequest :: "golib \<Rightarrow> string \<Rightarrow> FileMessage \<Rightarrow> EnhancedNode \<Rightarrow> EnhancedNode" where
  "handleFileRequest lib peerID fileMsg en =
     (let en0 = logf ''Received file transfer request from %s: %s (%d bytes)''
                  [Str peerID, Str (fm_file_name fileMsg), Num (fm_file_size fileMsg)] en;
          transfer =
            \<lparr>FileID = fm_file_id fileMsg, FileName = fm_file_name fileMsg,
             FileSize = fm_file_size fileMsg, Chunks = fmempty,
             TotalChunks = fm_total_chunks fileMsg, Status = ''active'', Progress = 0,
             PeerID = peerID, IsOutgoing = False, FilePath = []\<rparr>;
          en1 = store_transfer transfer en0;
          acceptMsg = zero_FileMessage\<lparr>fm_type := ''accept'', fm_file_id := fm_file_id fileMsg\<rparr>
      in case sendFileMessage lib peerID acceptMsg en1 of
           (Some err, en2) \<Rightarrow> logf ''Failed to send accept message: %v'' [Err err] en2
         | (None, en2) \<Rightarrow>
             ui_send
               (system_message ''SYSTEM''
                  (fmt_Sprintf lib ''Receiving file from %s: %s (%d bytes)''
                     [Str peerID, Str (fm_file_name fileMsg), Num (fm_file_size fileMsg)]))
               en2)"

definition handleFileAccept :: "string \<Rightarrow> FileMessage \<Rightarrow> EnhancedNode \<Rightarrow> EnhancedNode" where
  "handleFileAccept peerID fileMsg en =
     (case activeTransfers en (fm_file_id fileMsg) of
        None \<Rightarrow> logf ''Unknown file transfer ID: %s'' [Str (fm_file_id fileMsg)] en
      | Some transfer \<Rightarrow>
          spawn (Go_sendFileChunks peerID transfer)
            (logf ''File transfer accepted by %s, starting transfer'' [Str peerID]
               (update_transfer transfer (\<lambda>t. t\<lparr>Status := ''active''\<rparr>) en)))"

definition handleFileReject :: "golib \<Rightarrow> string \<Rightarrow> FileMessage \<Rightarrow> EnhancedNode \<Rightarrow> EnhancedNode" where
  "handleFileReject lib peerID fileMsg en =
     (let en1 =
            (case activeTransfers en (fm_file_id fileMsg) of
               Some transfer \<Rightarrow>
                 delete_transfer (fm_file_id fileMsg)
                   (update_transfer transfer (\<lambda>t. t\<lparr>Status := ''failed''\<rparr>) en)
             | None \<Rightarrow> en)
      in ui_send
           (system_message ''SYSTEM'' (fmt_Sprintf lib ''File transfer rejected by %s'' [Str peerID]))
           (logf ''File transfer rejected by %s'' [Str peerID] en1))"

text \<open>
  \<^verbatim>\<open>sendFileChunks\<close> runs in a goroutine of its own. The model is a run of it that no
  other goroutine interrupts; \<open>n\<close> is \<^verbatim>\<open>transfer.TotalChunks\<close>, which no statement of the
  program assigns after the record is made. A missing key of \<^verbatim>\<open>transfer.Chunks\<close> reads as
  the empty slice. Inside the loop \<open>0 \<le> i < n\<close>, so the division of the progress update
  has a positive divisor and non-negative dividend.
\<close>

function sendFileChunks_loop ::
  "golib \<Rightarrow> string \<Rightarrow> nat \<Rightarrow> int \<Rightarrow> int \<Rightarrow> EnhancedNode \<Rightarrow> bool \<times> EnhancedNode" where
  "sendFileChunks_loop lib peerID transfer i n en =
     (if i < n then
        (let chunkData = (case fmlookup (Chunks (heap en transfer)) i of None \<Rightarrow> [] | Some c \<Rightarrow> c);
             chunkMsg =
               zero_FileMessage\<lparr>fm_type := ''chunk'', fm_file_id := FileID (heap en transfer),
                 fm_chunk_index := i, fm_total_chunks := TotalChunks (heap en transfer),
                 fm_data := base64_EncodeToString lib chunkData,
                 fm_checksum := hex (md5_Sum lib chunkData)\<rparr>
         in case sendFileMessage lib peerID chunkMsg en of
              (Some err, en1) \<Rightarrow>
                (False,
                 ui_send
                   (system_message ''SYSTEM''
                      (fmt_Sprintf lib ''Failed to send file chunk to %s: %v'' [Str peerID, Err err]))
                   (delete_transfer (FileID (heap en1 transfer))
                      (update_transfer transfer (\<lambda>t. t\<lparr>Status := ''failed''\<rparr>)
                         (logf ''Failed to send chunk %d: %v'' [Num i, Err err] en1))))
            | (None, en1) \<Rightarrow>
                sendFileChunks_loop lib peerID transfer (i + 1) n
                  ((update_transfer transfer (\<lambda>t. t\<lparr>Progress := ((i + 1) * 100) div n\<rparr>) en1)
                     \<lparr>time_Now := time_Now en1 + 10000000\<rparr>))
      else (True, en))"
  by pat_completeness auto
termination
  by (relation "measure (\<lambda>(lib, peerID, transfer, i, n, en). nat (n - i))") auto

definition sendFileChunks :: "golib \<Rightarrow> string \<Rightarrow> nat \<Rightarrow> EnhancedNode \<Rightarrow> EnhancedNode" where
  "sendFileChunks lib peerID transfer en =
     (case sendFileChunks_loop lib peerID transfer 0 (TotalChunks (heap en transfer)) en of
        (False, en1) \<Rightarrow> en1
      | (True, en1) \<Rightarrow>
          (let completeMsg =
                 zero_FileMessage\<lparr>fm_type := ''complete'', fm_file_id := FileID (heap en1 transfer)\<rparr>
           in case sendFileMessage lib peerID completeMsg en1 of
                (Some err, en2) \<Rightarrow> logf ''Failed to send complete message: %v'' [Err err] en2
              | (None, en2) \<Rightarrow>
                  delete_transfer (FileID (heap en2 transfer))
                    (ui_send
                       (system_message ''SYSTEM''
                          (fmt_Sprintf lib ''File sent successfully: %s'' [Str (FileName (heap en2 transfer))]))
                       (logf ''File transfer complete: %s'' [Str (FileName (heap en2 transfer))]
                          (update_transfer transfer (\<lambda>t. t\<lparr>Status := ''complete''\<rparr>) en2)))))"

text \<open>
  \<^verbatim>\<open>handleFileChunk\<close>. The chunk is stored before the progress is computed; when the
  division panics nothing recovers it and the process ends, which is the result
  \<open>Inl IntegerDivideByZero\<close>.
\<close>

definition handleFileChunk ::
  "golib \<Rightarrow> string \<Rightarrow> FileMessage \<Rightarrow> EnhancedNode \<Rightarrow> panic + EnhancedNode" where
  "handleFileChunk lib peerID fileMsg en =
     (case activeTransfers en (fm_file_id fileMsg) of
        None \<Rightarrow> Inr (logf ''Unknown file transfer ID: %s'' [Str (fm_file_id fileMsg)] en)
      | Some transfer \<Rightarrow>
          (case base64_DecodeString lib (fm_data fileMsg) of
             None \<Rightarrow> Inr (logf ''Failed to decode chunk data: %v'' [] en)
           | Some chunkData \<Rightarrow>
               if hex (md5_Sum lib chunkData) \<noteq> fm_checksum fileMsg
               then Inr (logf ''Checksum mismatch for chunk %d'' [Num (fm_chunk_index fileMsg)] en)
               else
                 (let en1 = update_transfer transfer
                              (\<lambda>t. t\<lparr>Chunks := fmupd (fm_chunk_index fileMsg) chunkData (Chunks t)\<rparr>) en
                  in case go_div (int (map_len (Chunks (heap en1 transfer))) * 100)
                            (TotalChunks (heap en1 transfer)) of
                       Inl p \<Rightarrow> Inl p
                     | Inr progress \<Rightarrow>
                         Inr (logf ''Received chunk %d/%d (%d%%)''
                                [Num (fm_chunk_index fileMsg + 1), Num (fm_total_chunks fileMsg),
                                 Num progress]
                                (update_transfer transfer (\<lambda>t. t\<lparr>Progress := progress\<rparr>) en1)))))"

definition fail_transfer :: "nat \<Rightarrow> EnhancedNode \<Rightarrow> EnhancedNode" where
  "fail_transfer transfer en = update_transfer transfer (\<lambda>t. t\<lparr>Status := ''failed''\<rparr>) en"

definition handleFileComplete ::
  "golib \<Rightarrow> string \<Rightarrow> FileMessage \<Rightarrow> EnhancedNode \<Rightarrow> EnhancedNode" where
  "handleFileComplete lib peerID fileMsg en =
     (case activeTransfers en (fm_file_id fileMsg) of
        None \<Rightarrow> logf ''Unknown file transfer ID: %s'' [Str (fm_file_id fileMsg)] en
      | Some transfer \<Rightarrow>
          (let t = heap en transfer in
           if int (map_len (Chunks t)) \<noteq> TotalChunks t
           then fail_transfer transfer
                  (logf ''Incomplete file: have %d chunks, expected %d''
                     [Num (int (map_len (Chunks t))), Num (TotalChunks t)] en)
           else
             (case assemble (Chunks t) 0 (nat (TotalChunks t)) [] of
                Inl i \<Rightarrow> fail_transfer transfer (logf ''Missing chunk %d'' [Num i] en)
              | Inr fileData \<Rightarrow>
                  if \<not> os_MkdirAll lib ''downloads''
                  then fail_transfer transfer
                         (logf ''Failed to create downloads directory: %v'' [] en)
                  else
                    (let filePath = filepath_Join lib ''downloads'' (FileName t) in
                     if \<not> os_WriteFile lib filePath fileData
                     then fail_transfer transfer (logf ''Failed to save file: %v'' [] en)
                     else
                       delete_transfer (fm_file_id fileMsg)
                         (ui_send
                            (system_message ''SYSTEM''
                               (fmt_Sprintf lib ''File received successfully: %s (saved to %s)''
                                  [Str (FileName t), Str filePath]))
                            (logf ''File received successfully: %s (%d bytes)''
                               [Str (FileName t), Num (int (length fileData))]
                               (update_transfer transfer (\<lambda>t. t\<lparr>Status := ''complete''\<rparr>) en)))))))"

definition HandleFileMessage ::
  "golib \<Rightarrow> string \<Rightarrow> FileMessage \<Rightarrow> EnhancedNode \<Rightarrow> panic + EnhancedNode" where
  "HandleFileMessage lib peerID fileMsg en =
     (if fm_type fileMsg = ''request'' then Inr (handleFileRequest lib peerID fileMsg en)
      else if fm_type fileMsg = ''accept'' then Inr (handleFileAccept peerID fileMsg en)
      else if fm_type fileMsg = ''reject'' then Inr (handleFileReject lib peerID fileMsg en)
      else if fm_type fileMsg = ''chunk'' then handleFileChunk lib peerID fileMsg en
      else if fm_type fileMsg = ''complete'' then Inr (handleFileComplete lib peerID fileMsg en)
      else Inr (logf ''Unknown file message type: %s'' [Str (fm_type fileMsg)] en))"

text \<open>\<^verbatim>\<open>FileTransferManager.HandleCLICommand\<close>, for \<^verbatim>\<open>/sendfile <peer_id> <file_path>\<close>.\<close>

definition fileManager_HandleCLICommand :: "golib \<Rightarrow> string \<Rightarrow> EnhancedNode \<Rightarrow> EnhancedNode" where
  "fileManager_HandleCLICommand lib command en =
     (let parts = Fields command in
      if length parts < 3 then logf ''Usage: /sendfile <peer_id> <file_path>'' [] en
      else
        (case SendFile lib (parts ! 1) (Join (drop 2 parts) '' '') en of
           (None, en1) \<Rightarrow> en1
         | (Some err, en1) \<Rightarrow>
             ui_send
               (system_message ''System'' (fmt_Sprintf lib ''Failed to send file: %v'' [Err err]))
               (logf ''Failed to send file: %v'' [Err err] en1)))"

text \<open>A run of file messages from one peer, as the event loop hands them over one by
  one; a panic ends the run.\<close>

fun handle_file_messages ::
  "golib \<Rightarrow> string \<Rightarrow> FileMessage list \<Rightarrow> EnhancedNode \<Rightarrow> panic + EnhancedNode" where
  "handle_file_messages lib peerID [] en = Inr en"
| "handle_file_messages lib peerID (m # ms) en =
     (case HandleFileMessage lib peerID m en of
        Inl p \<Rightarrow> Inl p
      | Inr en1 \<Rightarrow> handle_file_messages lib peerID ms en1)"

section \<open>message.go\<close>

definition Node_handleIncomingMessage :: "Message \<Rightarrow> EnhancedNode \<Rightarrow> EnhancedNode" where
  "Node_handleIncomingMessage msg n =
     (if HasPrefix (Content msg) ''GOSSIP_PEERS:'' then
        (let peerListStr = TrimPrefix (Content msg) ''GOSSIP_PEERS:'' in
         if peerListStr \<noteq> [] then n\<lparr>PeerListGossip := PeerListGossip n @ [Split peerListStr CHR '','']\<rparr>
         else n)
      else ui_send msg n)"

text \<open>
  \<^verbatim>\<open>for _, peer := range n.Peers\<close>: Go fixes no order for it, so the loops over the peer
  table take the order of the visit, a list of the table's keys, as \<open>order\<close>, and run
  the loop's body for each key in turn.
\<close>

definition broadcast_body :: "bytes \<Rightarrow> string \<Rightarrow> EnhancedNode \<Rightarrow> EnhancedNode" where
  "broadcast_body networkMsg peerID n =
     (case Peers n peerID of
        None \<Rightarrow> n
      | Some peer \<Rightarrow>
          (case try_send peerID peer networkMsg n of
             Some n1 \<Rightarrow> n1
           | None \<Rightarrow> logf ''Peer %s send channel full, dropping message'' [Str (Peer_ID peer)] n))"

definition broadcast :: "string list \<Rightarrow> Message \<Rightarrow> EnhancedNode \<Rightarrow> EnhancedNode" where
  "broadcast order msg n = fold (broadcast_body (SenderID msg @ ''|'' @ Content msg)) order n"

section \<open>node\_impl.go\<close>

definition connectToPeer :: "golib \<Rightarrow> string \<Rightarrow> EnhancedNode \<Rightarrow> EnhancedNode" where
  "connectToPeer lib addr n =
     (if addr = ID n \<or> addr = [] then logf ''Cannot connect to self or empty address'' [] n
      else if Peers n addr \<noteq> None then logf ''Already connected to %s'' [Str addr] n
      else
        (let n1 = (logf ''Connecting to %s...'' [Str addr] n)\<lparr>dialed := dialed n @ [addr]\<rparr> in
         case net_DialTimeout lib addr of
           None \<Rightarrow> logf ''Failed to connect to %s: %v'' [Str addr] n1
         | Some conn \<Rightarrow>
             (let n2 = logf ''Connected to %s'' [Str addr] n1 in
              n2\<lparr>NewPeer := NewPeer n2 @ [\<lparr>Peer_ID = addr, Conn = conn, Send = [], Done = False\<rparr>]\<rparr>)))"

definition addPeer :: "golib \<Rightarrow> Peer \<Rightarrow> EnhancedNode \<Rightarrow> EnhancedNode" where
  "addPeer lib peer n =
     (if Peers n (Peer_ID peer) \<noteq> None then
        (logf ''Peer %s already exists, closing connection'' [Str (Peer_ID peer)] n)
          \<lparr>closedConns := closedConns n @ [Conn peer]\<rparr>
      else
        spawn (Go_handlePeer (Peer_ID peer))
          (ui_send
             (system_message ''System'' (fmt_Sprintf lib ''Peer connected: %s'' [Str (Peer_ID peer)]))
             (n\<lparr>Peers := (Peers n)(Peer_ID peer \<mapsto> peer),
                KnownPeers := (KnownPeers n)(Peer_ID peer \<mapsto> True)\<rparr>)))"

text \<open>One pass of the loop of \<^verbatim>\<open>handleServer\<close>, for a connection \<open>conn\<close> that
  \<^verbatim>\<open>Accept\<close> returned from the remote address \<open>remoteAddr\<close>.\<close>

definition handleServer_accept :: "nat \<Rightarrow> string \<Rightarrow> EnhancedNode \<Rightarrow> EnhancedNode" where
  "handleServer_accept conn remoteAddr n =
     (if Peers n remoteAddr \<noteq> None then
        (logf ''Already connected to %s, closing new connection'' [Str remoteAddr] n)
          \<lparr>closedConns := closedConns n @ [conn]\<rparr>
      else n\<lparr>NewPeer := NewPeer n @ [\<lparr>Peer_ID = remoteAddr, Conn = conn, Send = [], Done = False\<rparr>]\<rparr>)"

definition handleCLIInput :: "string list \<Rightarrow> string \<Rightarrow> EnhancedNode \<Rightarrow> EnhancedNode" where
  "handleCLIInput order input n =
     (if input = ''/quit'' then record_call Call_shutdown n
      else if HasPrefix input ''/connect '' then
        spawn (Go_connectToPeer (TrimPrefix input ''/connect '')) n
      else if input = ''/peers'' then record_call Call_listPeers n
      else if input = ''/discovered'' then record_call Call_listDiscoveredPeers n
      else if input = ''/help'' then record_call Call_showHelp n
      else
        (let msg = \<lparr>SenderID = ID n, Content = input, FromPeerID = [], IsGossip = False\<rparr>
         in ui_send msg (broadcast order msg n)))"

definition handlePeerListGossip :: "string list \<Rightarrow> EnhancedNode \<Rightarrow> EnhancedNode" where
  "handlePeerListGossip peerList n =
     n\<lparr>DiscoveredPeer :=
         DiscoveredPeer n @ filter (\<lambda>peerAddr. peerAddr \<noteq> [] \<and> peerAddr \<noteq> ID n) peerList\<rparr>"

section \<open>integration.go and the voice broadcast\<close>

definition handleKeyExchange :: "golib \<Rightarrow> string \<Rightarrow> bytes \<Rightarrow> EnhancedNode \<Rightarrow> EnhancedNode" where
  "handleKeyExchange lib peerID keyData en =
     (case AddPeerKey lib peerID keyData (cryptoManager en) of
        Inl err \<Rightarrow> logf ''Failed to add peer key for %s: %v'' [Str peerID, Err err] en
      | Inr cm \<Rightarrow> logf ''Added public key for peer %s'' [Str peerID] (en\<lparr>cryptoManager := cm\<rparr>))"

definition broadcastEncrypted_body ::
  "golib \<Rightarrow> bytes \<Rightarrow> string \<Rightarrow> string \<Rightarrow> go_error option \<times> EnhancedNode
     \<Rightarrow> go_error option \<times> EnhancedNode" where
  "broadcastEncrypted_body lib plaintext msgType peerID acc =
     (case acc of (lastError, en) \<Rightarrow>
        (case Peers en peerID of
           None \<Rightarrow> (lastError, en)
         | Some peer \<Rightarrow>
             (case peerIDMap en peerID of
                None \<Rightarrow>
                  (lastError,
                   logf ''Skipping encryption for %s: no node ID mapping yet'' [Str peerID] en)
              | Some actualNodeID \<Rightarrow>
                  (case node_EncryptMessage lib actualNodeID plaintext msgType en of
                     (Inl err, en1) \<Rightarrow>
                       (Some err,
                        logf ''Failed to encrypt message for %s (%s): %v''
                          [Str peerID, Str actualNodeID, Err err] en1)
                   | (Inr encryptedMsg, en1) \<Rightarrow>
                       (case try_send peerID peer (json_Marshal_EncryptedMessage lib encryptedMsg) en1 of
                          Some en2 \<Rightarrow> (lastError, en2)
                        | None \<Rightarrow>
                            (Some (ErrChannelFullFor peerID),
                             logf ''Failed to send message to %s: channel full'' [Str peerID] en1))))))"

definition broadcastEncrypted ::
  "golib \<Rightarrow> string list \<Rightarrow> bytes \<Rightarrow> string \<Rightarrow> EnhancedNode \<Rightarrow> go_error option \<times> EnhancedNode" where
  "broadcastEncrypted lib order plaintext msgType en =
     fold (broadcastEncrypted_body lib plaintext msgType) order (None, en)"

definition SendEncryptedText ::
  "golib \<Rightarrow> string list \<Rightarrow> string \<Rightarrow> EnhancedNode \<Rightarrow> go_error option \<times> EnhancedNode" where
  "SendEncryptedText lib order text en = broadcastEncrypted lib order text ''text'' en"

text \<open>\<^verbatim>\<open>VoiceMessageManager.broadcastVoiceMessage\<close> (voice\_messaging.go), which looks
  the key up under the connection id itself.\<close>

definition broadcastVoiceMessage_body ::
  "golib \<Rightarrow> bytes \<Rightarrow> string \<Rightarrow> go_error option \<times> EnhancedNode \<Rightarrow> go_error option \<times> EnhancedNode" where
  "broadcastVoiceMessage_body lib payload peerID acc =
     (case acc of (lastError, en) \<Rightarrow>
        (case Peers en peerID of
           None \<Rightarrow> (lastError, en)
         | Some peer \<Rightarrow>
             (case node_EncryptMessage lib peerID payload ''voice'' en of
                (Inl err, en1) \<Rightarrow>
                  (Some err,
                   logf ''Failed to encrypt voice message for %s: %v'' [Str peerID, Err err] en1)
              | (Inr encryptedMsg, en1) \<Rightarrow>
                  (case try_send peerID peer
                          (ID en1 @ ''|'' @ json_Marshal_EncryptedMessage lib encryptedMsg) en1 of
                     Some en2 \<Rightarrow> (lastError, en2)
                   | None \<Rightarrow>
                       (Some (ErrChannelFullFor peerID),
                        logf ''Failed to send voice message to %s: channel full'' [Str peerID] en1)))))"

definition broadcastVoiceMessage ::
  "golib \<Rightarrow> string list \<Rightarrow> VoiceMessage \<Rightarrow> EnhancedNode \<Rightarrow> go_error option \<times> EnhancedNode" where
  "broadcastVoiceMessage lib order voiceMsg en =
     fold (broadcastVoiceMessage_body lib (json_Marshal_VoiceMessage lib voiceMsg)) order (None, en)"

definition handleEnhancedCLICommand ::
  "golib \<Rightarrow> string list \<Rightarrow> string \<Rightarrow> string \<Rightarrow> EnhancedNode \<Rightarrow> EnhancedNode" where
  "handleEnhancedCLICommand lib order input senderID en =
     (if senderID \<noteq> ID en then en
      else if HasPrefix input ''/sendfile '' then fileManager_HandleCLICommand lib input en
      else if HasPrefix input ''/voice '' then
        record_call (Call_voiceManager_HandleCLICommand input) en
      else if HasPrefix input ''/help'' then record_call Call_showEnhancedHelp en
      else if HasPrefix input ''/'' then handleCLIInput order input en
      else
        (case SendEncryptedText lib order input en of
           (Some err, en1) \<Rightarrow> logf ''Failed to send encrypted message: %v'' [Err err] en1
         | (None, en1) \<Rightarrow>
             ui_send \<lparr>SenderID = ID en1, Content = input, FromPeerID = [], IsGossip = False\<rparr> en1))"

definition handleDecryptedMessage ::
  "golib \<Rightarrow> string list \<Rightarrow> Message \<Rightarrow> EnhancedNode \<Rightarrow> EnhancedNode" where
  "handleDecryptedMessage lib order msg en =
     (if HasPrefix (Content msg) ''/''
      then handleEnhancedCLICommand lib order (Content msg) (SenderID msg) en
      else ui_send msg en)"

text \<open>
  \<^verbatim>\<open>EnhancedNode.handleIncomingMessage\<close>, the handler the event loop of
  \<^verbatim>\<open>StartEnhanced\<close> calls for every message read from a peer. Its first statement,
  the update of \<open>peerIDMap\<close>, is \<open>remember_sender\<close>.
\<close>

definition remember_sender :: "Message \<Rightarrow> EnhancedNode \<Rightarrow> EnhancedNode" where
  "remember_sender msg en =
     (if FromPeerID msg \<noteq> [] \<and> SenderID msg \<noteq> [] \<and> SenderID msg \<noteq> ID en
      then en\<lparr>peerIDMap := (peerIDMap en)(FromPeerID msg \<mapsto> SenderID msg)\<rparr>
      else en)"

definition EnhancedNode_handleIncomingMessage ::
  "golib \<Rightarrow> string list \<Rightarrow> Message \<Rightarrow> EnhancedNode \<Rightarrow> panic + EnhancedNode" where
  "EnhancedNode_handleIncomingMessage lib order msg en0 =
     (let en = remember_sender msg en0
      in if HasPrefix (Content msg) ''KEY_EXCHANGE:''
         then Inr (handleKeyExchange lib (SenderID msg) (TrimPrefix (Content msg) ''KEY_EXCHANGE:'') en)
         else
           (case json_Unmarshal (json_Decode_EncryptedMessage lib) (Content msg) of
              Some encryptedMsg \<Rightarrow>
                (case DecryptMessage lib (cryptoManager en) encryptedMsg of
                   Inl err \<Rightarrow>
                     Inr (logf ''Failed to decrypt message from %s: %v'' [Str (SenderID msg), Err err] en)
                 | Inr (plaintext, msgType) \<Rightarrow>
                     if msgType = ''text'' then
                       Inr (handleDecryptedMessage lib order
                              \<lparr>SenderID = SenderID msg, Content = plaintext,
                               FromPeerID = FromPeerID msg, IsGossip = IsGossip msg\<rparr> en)
                     else if msgType = ''file'' then
                       (case json_Unmarshal (json_Decode_FileMessage lib) plaintext of
                          None \<Rightarrow> Inr (logf ''Failed to parse file message: %v'' [] en)
                        | Some fileMsg \<Rightarrow> HandleFileMessage lib (SenderID msg) fileMsg en)
                     else if msgType = ''voice'' then
                       (case json_Unmarshal (json_Decode_VoiceMessage lib) plaintext of
                          None \<Rightarrow> Inr (logf ''Failed to parse voice message: %v'' [] en)
                        | Some voiceMsg \<Rightarrow>
                            Inr (record_call (Call_HandleVoiceMessage (SenderID msg) voiceMsg) en))
                     else if msgType = ''key_exchange'' then
                       Inr (handleKeyExchange lib (SenderID msg) plaintext en)
                     else Inr (logf ''Unknown message type: %s'' [Str msgType] en))
            | None \<Rightarrow> Inr (handleDecryptedMessage lib order msg en)))"

text \<open>
  A node as \<^verbatim>\<open>NewEnhancedNode\<close> leaves it: \<open>addr\<close> is the listen address, the key pair is
  the generated one (\<^verbatim>\<open>generateKeys\<close> sets \<^verbatim>\<open>publicKey = &privateKey.PublicKey\<close>), every
  table is empty but \<open>KnownPeers\<close>, which holds the node itself.
\<close>

definition NewCryptoManager :: "rsa_PrivateKey \<Rightarrow> string \<Rightarrow> CryptoManager" where
  "NewCryptoManager key dir =
     \<lparr>privateKey = key, publicKey = PublicKey key, peerKeys = Map.empty, keysDir = dir\<rparr>"

definition zero_FileTransfer :: FileTransfer where
  "zero_FileTransfer =
     \<lparr>FileID = [], FileName = [], FileSize = 0, Chunks = fmempty, TotalChunks = 0, Status = [],
      Progress = 0, PeerID = [], IsOutgoing = False, FilePath = []\<rparr>"

definition NewEnhancedNode ::
  "string \<Rightarrow> rsa_PrivateKey \<Rightarrow> (nat \<Rightarrow> bytes) \<Rightarrow> int \<Rightarrow> EnhancedNode" where
  "NewEnhancedNode addr key random now =
     \<lparr>ID = addr, Peers = Map.empty, KnownPeers = [addr \<mapsto> True], peerIDMap = Map.empty,
      cryptoManager = NewCryptoManager key ''./keys'', activeTransfers = Map.empty,
      heap = (\<lambda>a. zero_FileTransfer), heap_next = 0, uiChannel = [], PeerListGossip = [],
      DiscoveredPeer = [], NewPeer = [], dialed = [], closedConns = [], goroutines = [],
      calls = [], logs = [], rand_Reader = random, rand_reads = 0, time_Now = now\<rparr>"

section \<open>What the round trip asks of the libraries\<close>

text \<open>
  The documented contracts of the library functions, for a 2048-bit key and SHA-256:
  RSA-OAEP takes messages of up to \<open>k - 2 hLen - 2\<close> bytes (\<open>k = 256\<close>, \<open>hLen = 32\<close>) and
  decryption with the private key undoes encryption with its public key; a
  PKCS\#1 v1.5 signature made with a private key verifies under its public key; base64
  decoding undoes encoding; a marshalled and PEM-encoded public key decodes and parses
  to the same key.
\<close>

definition max_oaep_plaintext :: nat where
  "max_oaep_plaintext = 256 - 2 * 32 - 2"

definition oaep_correct :: "'a cryptolib_scheme \<Rightarrow> rsa_PrivateKey \<Rightarrow> bool" where
  "oaep_correct lib key \<longleftrightarrow>
     (\<forall>seed m. length m \<le> max_oaep_plaintext \<longrightarrow>
        (\<exists>c. rsa_EncryptOAEP lib seed (PublicKey key) m = Some c \<and>
             rsa_DecryptOAEP lib key c = Some m))"

definition pkcs1v15_correct :: "'a cryptolib_scheme \<Rightarrow> rsa_PrivateKey \<Rightarrow> bool" where
  "pkcs1v15_correct lib key \<longleftrightarrow>
     (\<forall>digest. \<exists>s. rsa_SignPKCS1v15 lib key digest = Some s \<and>
        rsa_VerifyPKCS1v15 lib (PublicKey key) digest s)"

definition base64_correct :: "'a cryptolib_scheme \<Rightarrow> bool" where
  "base64_correct lib \<longleftrightarrow>
     (\<forall>b. base64_DecodeString lib (base64_EncodeToString lib b) = Some b)"

definition pkix_pem_correct :: "'a cryptolib_scheme \<Rightarrow> rsa_PublicKey \<Rightarrow> bool" where
  "pkix_pem_correct lib pub \<longleftrightarrow>
     (\<exists>der. x509_MarshalPKIXPublicKey lib pub = Some der \<and>
        pem_Decode lib (pem_EncodeToMemory lib ''PUBLIC KEY'' der) = Some der \<and>
        x509_ParsePKIXPublicKey lib der = Some (RSAPublicKey pub))"

text \<open>
  An instance of the library interface with no cryptography in it: ciphertext and
  signature are the message and the digest themselves, the codecs are identities, no
  JSON decodes, no file reads and no dial succeeds. It meets the contracts above, so they
  are consistent, and it runs the program's functions on concrete inputs.
\<close>

definition plain_lib :: golib where
  "plain_lib =
     \<lparr>rsa_EncryptOAEP = (\<lambda>seed pub m. if length m \<le> max_oaep_plaintext then Some m else None),
      rsa_DecryptOAEP = (\<lambda>key c. Some c),
      rsa_SignPKCS1v15 = (\<lambda>key digest. Some digest),
      rsa_VerifyPKCS1v15 = (\<lambda>pub digest s. s = digest),
      sha256_Sum256 = (\<lambda>m. m),
      md5_Sum = (\<lambda>m. m),
      base64_EncodeToString = (\<lambda>b. b),
      base64_DecodeString = Some,
      x509_MarshalPKIXPublicKey =
        (\<lambda>pub. Some (replicate (rsa_N pub) CHR ''n'' @ ''/'' @ replicate (rsa_E pub) CHR ''e'')),
      x509_ParsePKIXPublicKey =
        (\<lambda>der. Some (RSAPublicKey
           \<lparr>rsa_N = length (takeWhile (\<lambda>c. c \<noteq> CHR ''/'') der),
            rsa_E = length (tl (dropWhile (\<lambda>c. c \<noteq> CHR ''/'') der))\<rparr>)),
      pem_EncodeToMemory = (\<lambda>type der. der),
      pem_Decode = Some,
      json_Marshal_FileMessage = (\<lambda>m. ''{}''),
      json_Decode_FileMessage = (\<lambda>b. None),
      json_Marshal_EncryptedMessage = (\<lambda>m. ''{}''),
      json_Decode_EncryptedMessage = (\<lambda>b. None),
      json_Marshal_VoiceMessage = (\<lambda>m. ''{}''),
      json_Decode_VoiceMessage = (\<lambda>b. None),
      os_ReadFile = (\<lambda>path. None),
      os_MkdirAll = (\<lambda>path. True),
      os_WriteFile = (\<lambda>path content. True),
      filepath_Base = (\<lambda>path. path),
      filepath_Join = (\<lambda>dir name. dir @ ''/'' @ name),
      net_DialTimeout = (\<lambda>addr. None),
      fmt_Sprintf = (\<lambda>fmt args. fmt)\<rparr>"

definition demo_key :: "nat \<Rightarrow> rsa_PrivateKey" where
  "demo_key n = \<lparr>PublicKey = \<lparr>rsa_N = n, rsa_E = 3\<rparr>, rsa_D = n\<rparr>"

section \<open>A node to run the handlers on\<close>

text \<open>A freshly made node listening on \<open>10.0.0.1:7001\<close>, and one that has accepted a
  connection from \<open>127.0.0.1:50001\<close>.\<close>

definition demo_node :: EnhancedNode where
  "demo_node = NewEnhancedNode ''10.0.0.1:7001'' (demo_key 5) (\<lambda>k. []) 0"

definition demo_peer :: Peer where
  "demo_peer = \<lparr>Peer_ID = ''127.0.0.1:50001'', Conn = 1, Send = [], Done = False\<rparr>"

definition demo_connected :: EnhancedNode where
  "demo_connected = demo_node\<lparr>Peers := [''127.0.0.1:50001'' \<mapsto> demo_peer]\<rparr>"

definition from_peer :: "string \<Rightarrow> bytes \<Rightarrow> Message" where
  "from_peer sender content =
     \<lparr>SenderID = sender, Content = content, FromPeerID = ''127.0.0.1:50001'', IsGossip = False\<rparr>"

text \<open>File messages as the peer \<open>10.0.0.2:7002\<close> may send them: the offer of a file of
  \<open>n\<close> chunks under the id \<open>f1\<close>, and an accept, a complete and a chunk message for it.\<close>

definition request_msg :: "int \<Rightarrow> FileMessage" where
  "request_msg n =
     zero_FileMessage\<lparr>fm_type := ''request'', fm_file_id := ''f1'', fm_file_name := ''a.txt'',
       fm_file_size := 5, fm_total_chunks := n\<rparr>"

definition accept_msg :: FileMessage where
  "accept_msg = zero_FileMessage\<lparr>fm_type := ''accept'', fm_file_id := ''f1''\<rparr>"

definition complete_msg :: FileMessage where
  "complete_msg = zero_FileMessage\<lparr>fm_type := ''complete'', fm_file_id := ''f1''\<rparr>"

definition chunk_msg :: "int \<Rightarrow> int \<Rightarrow> string \<Rightarrow> string \<Rightarrow> FileMessage" where
  "chunk_msg i n payload digest =
     zero_FileMessage\<lparr>fm_type := ''chunk'', fm_file_id := ''f1'', fm_chunk_index := i,
       fm_total_chunks := n, fm_data := payload, fm_checksum := digest\<rparr>"

section \<open>Auxiliary predicates\<close>

text \<open>A connection \<open>c\<close> of the peer table whose node id \<open>nodeID\<close> has no key in the
  peer-key table.\<close>

definition keyless :: "string \<Rightarrow> Peer \<Rightarrow> string \<Rightarrow> EnhancedNode \<Rightarrow> bool" where
  "keyless c peer nodeID en \<longleftrightarrow>
     Peers en c = Some peer \<and> peerIDMap en c = Some nodeID \<and>
     peerKeys (cryptoManager en) nodeID = None"

section \<open>Chunking: auxiliary facts\<close>

lemma chunkSize_pos: "0 < chunkSize"
  by (simp add: chunkSize_def)

declare splitIntoChunks_loop.simps [simp del]

lemma chunk_count_0 [simp]: "chunk_count 0 = 0"
  by (simp add: chunk_count_def chunkSize_def)

lemma chunk_count_step:
  assumes "0 < n"
  shows "chunk_count n = Suc (chunk_count (n - chunkSize))"
proof (cases "n \<le> chunkSize")
  case True
  with assms have "chunk_count n = 1"
    by (simp add: chunk_count_def chunkSize_def)
  with True show ?thesis by simp
next
  case False
  then have "n + (chunkSize - 1) = (n - chunkSize + (chunkSize - 1)) + chunkSize"
    by simp
  then have "chunk_count n = (n - chunkSize + (chunkSize - 1)) div chunkSize + 1"
    unfolding chunk_count_def using chunkSize_pos by (metis div_add_self2 less_numeral_extra(3))
  then show ?thesis by (simp add: chunk_count_def)
qed


lemma chunk_at_take_drop: "chunk_at xs j = take chunkSize (drop (j * chunkSize) xs)"
  by (simp add: chunk_at_def slice_def min_def)

lemma loop_lookup:
  "fmlookup (splitIntoChunks_loop data (o' * chunkSize) k m) j =
     (if k \<le> j \<and> j < k + int (chunk_count (length data - o' * chunkSize))
      then Some (chunk_at data (o' + nat (j - k)))
      else fmlookup m j)"
proof (induction "length data - o' * chunkSize" arbitrary: o' k m rule: less_induct)
  case less
  show ?case
  proof (cases "o' * chunkSize < length data")
    case False
    then have "length data - o' * chunkSize = 0" by simp
    with False show ?thesis
      by (subst splitIntoChunks_loop.simps) (auto simp: Let_def)
  next
    case True
    let ?m' = "fmupd k (chunk_at data o') m"
    have step: "splitIntoChunks_loop data (o' * chunkSize) k m =
                splitIntoChunks_loop data (Suc o' * chunkSize) (k + 1) ?m'"
      using True
      by (subst splitIntoChunks_loop.simps) (simp add: Let_def chunk_at_def min_def add.commute)
    have dec: "length data - Suc o' * chunkSize < length data - o' * chunkSize"
      using True chunkSize_pos by simp
    have cc: "chunk_count (length data - o' * chunkSize) =
              Suc (chunk_count (length data - Suc o' * chunkSize))"
      using chunk_count_step [of "length data - o' * chunkSize"] True by (simp add: add.commute)
    show ?thesis
    proof (cases "j = k")
      case True
      then show ?thesis
        unfolding step less(1) [OF dec] cc by simp
    next
      case False
      have "nat (j - k) = Suc (nat (j - (k + 1)))" if "k < j"
        using that by simp
      then show ?thesis
        unfolding step less(1) [OF dec] cc using False by auto
    qed
  qed
qed

lemma concat_chunks: "concat (map (chunk_at xs) [0..<n]) = take (n * chunkSize) xs"
proof (induction n)
  case 0
  then show ?case by simp
next
  case (Suc n)
  have "take (n * chunkSize + chunkSize) xs =
        take (n * chunkSize) xs @ take chunkSize (drop (n * chunkSize) xs)"
    by (rule take_add)
  with Suc show ?case
    by (simp add: chunk_at_take_drop add.commute)
qed

lemma chunk_count_covers: "n \<le> chunk_count n * chunkSize"
proof -
  have "n + (chunkSize - 1) < ((n + (chunkSize - 1)) div chunkSize) * chunkSize + chunkSize"
    using chunkSize_pos
    by (metis div_mult_mod_eq add_less_cancel_left mod_less_divisor)
  then show ?thesis
    unfolding chunk_count_def using chunkSize_pos by simp
qed

lemma assemble_range:
  assumes "\<And>j. i \<le> j \<Longrightarrow> j < i + n \<Longrightarrow> fmlookup chunks (int j) = Some (f j)"
  shows "assemble chunks (int i) n acc = Inr (acc @ concat (map f [i..<i + n]))"
  using assms
proof (induction n arbitrary: i acc)
  case 0
  then show ?case by simp
next
  case (Suc n)
  have here: "fmlookup chunks (int i) = Some (f i)"
    using Suc.prems [of i] by simp
  have rest: "assemble chunks (int (Suc i)) n (acc @ f i) =
              Inr ((acc @ f i) @ concat (map f [Suc i..<Suc i + n]))"
    by (rule Suc.IH) (use Suc.prems in simp)
  have idx: "int i + 1 = int (Suc i)" by simp
  show ?case
    unfolding assemble.simps here option.case idx rest
    by (simp add: upt_conv_Cons del: upt_Suc)
qed

lemma split_lookup:
  "fmlookup (splitIntoChunks b) j =
     (if 0 \<le> j \<and> j < int (chunk_count (length b)) then Some (chunk_at b (nat j)) else None)"
  using loop_lookup [of b 0 0 fmempty j] by (simp add: splitIntoChunks_def)

lemma split_len: "map_len (splitIntoChunks b) = chunk_count (length b)"
proof -
  have "fmdom' (splitIntoChunks b) = int ` {0..<chunk_count (length b)}"
  proof (rule set_eqI)
    fix j
    show "j \<in> fmdom' (splitIntoChunks b) \<longleftrightarrow> j \<in> int ` {0..<chunk_count (length b)}"
    proof -
      have "j \<in> int ` {0..<chunk_count (length b)} \<longleftrightarrow> 0 \<le> j \<and> j < int (chunk_count (length b))"
        by (auto simp: image_iff intro: bexI [of _ "nat j"])
      then show ?thesis
        by (simp add: fmlookup_dom'_iff split_lookup)
    qed
  qed
  then have "card (fmdom' (splitIntoChunks b)) = chunk_count (length b)"
    by (simp add: card_image)
  then show ?thesis
    by (simp add: map_len_def fcard.rep_eq fmdom'_alt_def)
qed

lemma length_chunk_at_le: "length (chunk_at b j) \<le> chunkSize"
  by (simp add: chunk_at_take_drop)

lemma length_chunk_at_full:
  assumes "Suc j < chunk_count (length b)"
  shows "length (chunk_at b j) = chunkSize"
proof -
  have "chunk_count (length b) \<le> Suc j" if "length b \<le> Suc j * chunkSize - 1"
  proof -
    have "length b + (chunkSize - 1) < Suc j * chunkSize + chunkSize"
      using that chunkSize_pos by simp
    then have "(length b + (chunkSize - 1)) div chunkSize < Suc (Suc j)"
      using chunkSize_pos by (simp add: div_less_iff_less_mult add.commute)
    then show ?thesis by (simp add: chunk_count_def)
  qed
  with assms have "Suc j * chunkSize \<le> length b"
    by fastforce
  then show ?thesis
    by (simp add: chunk_at_take_drop)
qed

text \<open>
  Claim C6. For every byte sequence \<open>b\<close>, the empty one included, \<^verbatim>\<open>splitIntoChunks\<close> makes
  \<open>\<lceil>len(b) / 8192\<rceil>\<close> chunks; appending them in index order, as the loop of
  \<^verbatim>\<open>handleFileComplete\<close> does, gives \<open>b\<close> back; every chunk has an index from \<open>0\<close> to
  \<open>n - 1\<close> and at most 8192 bytes, and every chunk but the last has exactly 8192.
\<close>

theorem splitIntoChunks_roundtrip:
  "map_len (splitIntoChunks b) = (length b + 8191) div 8192 \<and>
   assemble (splitIntoChunks b) 0 (map_len (splitIntoChunks b)) [] = Inr b \<and>
   (\<forall>i c. fmlookup (splitIntoChunks b) i = Some c \<longrightarrow>
      0 \<le> i \<and> i < int (map_len (splitIntoChunks b)) \<and> length c \<le> 8192 \<and>
      (i + 1 < int (map_len (splitIntoChunks b)) \<longrightarrow> length c = 8192))"
proof (intro conjI allI impI)
  show "map_len (splitIntoChunks b) = (length b + 8191) div 8192"
    by (simp add: split_len chunk_count_def chunkSize_def)
next
  have "assemble (splitIntoChunks b) (int 0) (chunk_count (length b)) [] =
        Inr ([] @ concat (map (chunk_at b) [0..<0 + chunk_count (length b)]))"
    by (rule assemble_range) (simp add: split_lookup)
  moreover have "take (chunk_count (length b) * chunkSize) b = b"
    using chunk_count_covers [of "length b"] by simp
  ultimately show "assemble (splitIntoChunks b) 0 (map_len (splitIntoChunks b)) [] = Inr b"
    by (simp add: split_len concat_chunks)
next
  fix i c
  assume look: "fmlookup (splitIntoChunks b) i = Some c"
  then have rng: "0 \<le> i" "i < int (chunk_count (length b))" and c: "c = chunk_at b (nat i)"
    by (auto simp: split_lookup split: if_splits)
  show "0 \<le> i" by fact
  show "i < int (map_len (splitIntoChunks b))"
    using rng by (simp add: split_len)
  show "length c \<le> 8192"
    using length_chunk_at_le [of b "nat i"] c by (simp add: chunkSize_def)
  assume "i + 1 < int (map_len (splitIntoChunks b))"
  with rng have "Suc (nat i) < chunk_count (length b)"
    by (simp add: split_len)
  then show "length c = 8192"
    using length_chunk_at_full [of "nat i" b] c by (simp add: chunkSize_def)
qed

theorem splitIntoChunks_roundtrip_witness:
  "map_len (splitIntoChunks (replicate 8193 CHR ''a'')) = 2 \<and>
   assemble (splitIntoChunks (replicate 8193 CHR ''a'')) 0 2 [] = Inr (replicate 8193 CHR ''a'') \<and>
   (\<exists>c. fmlookup (splitIntoChunks (replicate 8193 CHR ''a'')) 0 = Some c \<and> length c = 8192)"
proof -
  let ?b = "replicate 8193 CHR ''a''"
  note rt = splitIntoChunks_roundtrip [of ?b]
  have n: "map_len (splitIntoChunks ?b) = 2"
    using rt by simp
  have asm: "assemble (splitIntoChunks ?b) 0 2 [] = Inr ?b"
    using rt unfolding n by simp
  from asm obtain c where c: "fmlookup (splitIntoChunks ?b) 0 = Some c"
    by (auto simp: numeral_2_eq_2 split: option.splits)
  with rt have "length c = 8192"
    unfolding n by auto
  with n asm c show ?thesis by blast
qed

section \<open>Encryption round trip\<close>

text \<open>
  Claim C7. When the sender holds the recipient's public key for \<open>peer\<close>, the sender's own
  public key is the public half of its private key, and the libraries meet their
  contracts, \<^verbatim>\<open>EncryptMessage\<close> succeeds on every plaintext of at most
  \<open>k - 2 hLen - 2 = 190\<close> bytes and every message type, and \<^verbatim>\<open>DecryptMessage\<close> of the
  recipient returns that plaintext and type.
\<close>

theorem EncryptMessage_DecryptMessage:
  assumes oaep: "oaep_correct lib (privateKey recipient)"
    and sig: "pkcs1v15_correct lib (privateKey sender)"
    and b64: "base64_correct lib"
    and pem: "pkix_pem_correct lib (publicKey sender)"
    and own: "publicKey sender = PublicKey (privateKey sender)"
    and key: "peerKeys sender peer = Some (PublicKey (privateKey recipient))"
    and fits: "length m \<le> max_oaep_plaintext"
  shows "\<exists>envelope. EncryptMessage lib sender seed now peer m t = Inr envelope \<and>
           DecryptMessage lib recipient envelope = Inr (m, t)"
proof -
  from oaep fits obtain c where
    enc: "rsa_EncryptOAEP lib seed (PublicKey (privateKey recipient)) m = Some c" and
    dec: "rsa_DecryptOAEP lib (privateKey recipient) c = Some m"
    unfolding oaep_correct_def by blast
  from sig obtain s where
    sign: "rsa_SignPKCS1v15 lib (privateKey sender) (sha256_Sum256 lib m) = Some s" and
    verify: "rsa_VerifyPKCS1v15 lib (PublicKey (privateKey sender)) (sha256_Sum256 lib m) s"
    unfolding pkcs1v15_correct_def by blast
  from pem obtain der where
    marshal: "x509_MarshalPKIXPublicKey lib (publicKey sender) = Some der" and
    block: "pem_Decode lib (pem_EncodeToMemory lib ''PUBLIC KEY'' der) = Some der" and
    parse: "x509_ParsePKIXPublicKey lib der = Some (RSAPublicKey (publicKey sender))"
    unfolding pkix_pem_correct_def by blast
  have b64': "\<And>b. base64_DecodeString lib (base64_EncodeToString lib b) = Some b"
    using b64 unfolding base64_correct_def by blast
  let ?envelope =
    "\<lparr>Ciphertext = base64_EncodeToString lib c, Signature = base64_EncodeToString lib s,
      SenderPubKey = pem_EncodeToMemory lib ''PUBLIC KEY'' der, Timestamp = now, MessageType = t\<rparr>"
  have "EncryptMessage lib sender seed now peer m t = Inr ?envelope"
    by (simp add: EncryptMessage_def GetPublicKeyPEM_def key enc sign marshal)
  moreover have "DecryptMessage lib recipient ?envelope = Inr (m, t)"
    using verify by (simp add: DecryptMessage_def b64' dec block parse own)
  ultimately show ?thesis by blast
qed

lemma plain_lib_oaep: "oaep_correct plain_lib key"
  by (simp add: oaep_correct_def plain_lib_def)

lemma plain_lib_b64: "base64_correct plain_lib"
  by (simp add: base64_correct_def plain_lib_def)

lemma plain_lib_sig: "pkcs1v15_correct plain_lib key"
  by (simp add: pkcs1v15_correct_def plain_lib_def)

lemma plain_lib_pem: "pkix_pem_correct plain_lib pub"
  by (simp add: pkix_pem_correct_def plain_lib_def takeWhile_append dropWhile_append)

theorem EncryptMessage_DecryptMessage_witness:
  "length ''hello'' \<le> max_oaep_plaintext \<and>
   (\<exists>envelope.
      EncryptMessage plain_lib
        ((NewCryptoManager (demo_key 5) ''./keys'')
           \<lparr>peerKeys := [''10.0.0.2:7002'' \<mapsto> PublicKey (demo_key 7)]\<rparr>)
        [] 0 ''10.0.0.2:7002'' ''hello'' ''text'' = Inr envelope \<and>
      DecryptMessage plain_lib (NewCryptoManager (demo_key 7) ''./keys'') envelope =
        Inr (''hello'', ''text''))"
proof -
  let ?sender = "(NewCryptoManager (demo_key 5) ''./keys'')
                   \<lparr>peerKeys := [''10.0.0.2:7002'' \<mapsto> PublicKey (demo_key 7)]\<rparr>"
  let ?recipient = "NewCryptoManager (demo_key 7) ''./keys''"
  have fits: "length ''hello'' \<le> max_oaep_plaintext"
    by (simp add: max_oaep_plaintext_def)
  have own: "publicKey ?sender = PublicKey (privateKey ?sender)"
    by (simp add: NewCryptoManager_def)
  have key: "peerKeys ?sender ''10.0.0.2:7002'' = Some (PublicKey (privateKey ?recipient))"
    by (simp add: NewCryptoManager_def)
  show ?thesis
    using fits
      EncryptMessage_DecryptMessage [OF plain_lib_oaep plain_lib_sig plain_lib_b64 plain_lib_pem
        own key fits, of "[]" 0 "''text''"]
    by blast
qed

section \<open>Peers without a key\<close>

lemma node_EncryptMessage_no_key:
  assumes "peerKeys (cryptoManager en) nodeID = None"
  shows "node_EncryptMessage lib nodeID plaintext t en = (Inl (ErrNoPublicKeyForPeer nodeID), en)"
  using assms by (simp add: node_EncryptMessage_def EncryptMessage_def)

lemma node_EncryptMessage_frame:
  assumes "node_EncryptMessage lib nodeID plaintext t en = (r, en1)"
  shows "Peers en1 = Peers en \<and> peerIDMap en1 = peerIDMap en \<and>
         cryptoManager en1 = cryptoManager en \<and> logs en1 = logs en \<and> ID en1 = ID en"
  using assms by (auto simp: node_EncryptMessage_def split: if_splits)

lemma try_send_frame:
  assumes "try_send peerID peer payload en = Some en2"
  shows "Peers en2 = (Peers en)(peerID \<mapsto> peer\<lparr>Send := Send peer @ [payload]\<rparr>) \<and>
         peerIDMap en2 = peerIDMap en \<and> cryptoManager en2 = cryptoManager en \<and>
         logs en2 = logs en"
  using assms by (auto simp: try_send_def split: if_splits)

lemma broadcastEncrypted_body_keyless:
  assumes "keyless c peer nodeID en"
    and "broadcastEncrypted_body lib plaintext t p (e, en) = (e', en')"
  shows "keyless c peer nodeID en' \<and> set (logs en) \<subseteq> set (logs en') \<and>
         (p = c \<longrightarrow>
            e' = Some (ErrNoPublicKeyForPeer nodeID) \<and>
            (''Failed to encrypt message for %s (%s): %v'',
               [Str c, Str nodeID, Err (ErrNoPublicKeyForPeer nodeID)]) \<in> set (logs en'))"
proof (cases "p = c")
  case True
  with assms show ?thesis
    by (auto simp: keyless_def broadcastEncrypted_body_def node_EncryptMessage_no_key logf_def)
next
  case False
  show ?thesis
  proof (cases "Peers en p")
    case None
    with assms False show ?thesis
      by (simp add: broadcastEncrypted_body_def)
  next
    case (Some peer')
    show ?thesis
    proof (cases "peerIDMap en p")
      case None
      with assms False Some show ?thesis
        by (auto simp: broadcastEncrypted_body_def keyless_def logf_def)
    next
      case (Some actual)
      obtain r en1 where enc: "node_EncryptMessage lib actual plaintext t en = (r, en1)"
        by (cases "node_EncryptMessage lib actual plaintext t en")
      note fr = node_EncryptMessage_frame [OF enc]
      show ?thesis
      proof (cases r)
        case (Inl err)
        with assms False \<open>Peers en p = Some peer'\<close> Some enc fr show ?thesis
          by (auto simp: broadcastEncrypted_body_def keyless_def logf_def)
      next
        case (Inr encryptedMsg)
        show ?thesis
        proof (cases "try_send p peer' (json_Marshal_EncryptedMessage lib encryptedMsg) en1")
          case None
          with assms False \<open>Peers en p = Some peer'\<close> Some enc fr Inr show ?thesis
            by (auto simp: broadcastEncrypted_body_def keyless_def logf_def)
        next
          case (Some en2)
          note fr2 = try_send_frame [OF Some]
          from assms False \<open>Peers en p = Some peer'\<close> \<open>peerIDMap en p = Some actual\<close> enc fr Inr Some fr2
          show ?thesis
            by (auto simp: broadcastEncrypted_body_def keyless_def)
        qed
      qed
    qed
  qed
qed

lemma broadcastEncrypted_body_error:
  assumes "broadcastEncrypted_body lib plaintext t p (e, en) = (e', en')" and "e \<noteq> None"
  shows "e' \<noteq> None"
  using assms
  by (auto simp: broadcastEncrypted_body_def split: option.splits sum.splits prod.splits)

lemma broadcastEncrypted_fold_error:
  assumes "fold (broadcastEncrypted_body lib plaintext t) order (e, en) = (e', en')" and "e \<noteq> None"
  shows "e' \<noteq> None"
  using assms
proof (induction order arbitrary: e en)
  case Nil
  then show ?case by simp
next
  case (Cons p order)
  obtain e1 en1 where body: "broadcastEncrypted_body lib plaintext t p (e, en) = (e1, en1)"
    by (cases "broadcastEncrypted_body lib plaintext t p (e, en)")
  with Cons.prems have "fold (broadcastEncrypted_body lib plaintext t) order (e1, en1) = (e', en')"
    by simp
  moreover have "e1 \<noteq> None"
    using broadcastEncrypted_body_error [OF body Cons.prems(2)] .
  ultimately show ?case by (rule Cons.IH)
qed

lemma broadcastEncrypted_fold_keyless:
  assumes "keyless c peer nodeID en"
    and "fold (broadcastEncrypted_body lib plaintext t) order (e, en) = (e', en')"
  shows "keyless c peer nodeID en' \<and> set (logs en) \<subseteq> set (logs en') \<and>
         (c \<in> set order \<longrightarrow>
            e' \<noteq> None \<and>
            (''Failed to encrypt message for %s (%s): %v'',
               [Str c, Str nodeID, Err (ErrNoPublicKeyForPeer nodeID)]) \<in> set (logs en'))"
  using assms
proof (induction order arbitrary: e en)
  case Nil
  then show ?case by simp
next
  case (Cons p order)
  obtain e1 en1 where body: "broadcastEncrypted_body lib plaintext t p (e, en) = (e1, en1)"
    by (cases "broadcastEncrypted_body lib plaintext t p (e, en)")
  note b = broadcastEncrypted_body_keyless [OF Cons.prems(1) body]
  from Cons.prems(2) body
  have rest: "fold (broadcastEncrypted_body lib plaintext t) order (e1, en1) = (e', en')"
    by simp
  note ih = Cons.IH [OF conjunct1 [OF b] rest]
  show ?case
  proof (intro conjI impI)
    show "keyless c peer nodeID en'" using ih by blast
    show "set (logs en) \<subseteq> set (logs en')" using b ih by blast
  next
    assume "c \<in> set (p # order)"
    then consider "c \<in> set order" | "p = c" "c \<notin> set order" by auto
    then show "e' \<noteq> None" 
    proof cases
      case 1
      with ih show ?thesis by blast
    next
      case 2
      with b have "e1 \<noteq> None" by simp
      with rest show ?thesis by (rule broadcastEncrypted_fold_error)
    qed
  next
    assume "c \<in> set (p # order)"
    then show "(''Failed to encrypt message for %s (%s): %v'',
               [Str c, Str nodeID, Err (ErrNoPublicKeyForPeer nodeID)]) \<in> set (logs en')"
      using b ih by auto
  qed
qed

lemma broadcastVoiceMessage_body_keyless:
  assumes "Peers en c = Some peer" "peerKeys (cryptoManager en) c = None"
    and "broadcastVoiceMessage_body lib payload p (e, en) = (e', en')"
  shows "Peers en' c = Some peer \<and> peerKeys (cryptoManager en') c = None \<and>
         set (logs en) \<subseteq> set (logs en') \<and>
         (p = c \<longrightarrow>
            e' = Some (ErrNoPublicKeyForPeer c) \<and>
            (''Failed to encrypt voice message for %s: %v'',
               [Str c, Err (ErrNoPublicKeyForPeer c)]) \<in> set (logs en'))"
proof (cases "p = c")
  case True
  with assms show ?thesis
    by (auto simp: broadcastVoiceMessage_body_def node_EncryptMessage_no_key logf_def)
next
  case False
  show ?thesis
  proof (cases "Peers en p")
    case None
    with assms False show ?thesis
      by (simp add: broadcastVoiceMessage_body_def)
  next
    case (Some peer')
    obtain r en1 where enc: "node_EncryptMessage lib p payload ''voice'' en = (r, en1)"
      by (cases "node_EncryptMessage lib p payload ''voice'' en")
    note fr = node_EncryptMessage_frame [OF enc]
    show ?thesis
    proof (cases r)
      case (Inl err)
      with assms False Some enc fr show ?thesis
        by (auto simp: broadcastVoiceMessage_body_def logf_def)
    next
      case (Inr encryptedMsg)
      show ?thesis
      proof (cases "try_send p peer' (ID en1 @ ''|'' @ json_Marshal_EncryptedMessage lib encryptedMsg) en1")
        case None
        with assms False \<open>Peers en p = Some peer'\<close> enc fr Inr show ?thesis
          by (auto simp: broadcastVoiceMessage_body_def logf_def)
      next
        case (Some en2)
        note fr2 = try_send_frame [OF Some]
        from assms False \<open>Peers en p = Some peer'\<close> enc fr Inr Some fr2
        show ?thesis
          by (auto simp: broadcastVoiceMessage_body_def)
      qed
    qed
  qed
qed

lemma broadcastVoiceMessage_fold_keyless:
  assumes "Peers en c = Some peer" "peerKeys (cryptoManager en) c = None"
    and "fold (broadcastVoiceMessage_body lib payload) order (e, en) = (e', en')"
  shows "Peers en' c = Some peer \<and> set (logs en) \<subseteq> set (logs en') \<and>
         (c \<in> set order \<longrightarrow>
            (''Failed to encrypt voice message for %s: %v'',
               [Str c, Err (ErrNoPublicKeyForPeer c)]) \<in> set (logs en'))"
  using assms
proof (induction order arbitrary: e en)
  case Nil
  then show ?case by simp
next
  case (Cons p order)
  obtain e1 en1 where body: "broadcastVoiceMessage_body lib payload p (e, en) = (e1, en1)"
    by (cases "broadcastVoiceMessage_body lib payload p (e, en)")
  note b = broadcastVoiceMessage_body_keyless [OF Cons.prems(1,2) body]
  from Cons.prems(3) body
  have rest: "fold (broadcastVoiceMessage_body lib payload) order (e1, en1) = (e', en')"
    by simp
  from b have k1: "Peers en1 c = Some peer" and k2: "peerKeys (cryptoManager en1) c = None"
    by blast+
  note ih = Cons.IH [OF k1 k2 rest]
  show ?case
    using b ih by auto
qed

text \<open>
  Claim C8. For a node id with no entry in the peer-key table, \<^verbatim>\<open>EncryptMessage\<close> returns
  the error and no envelope. \<^verbatim>\<open>broadcastEncrypted\<close> leaves every connection mapped to that
  node id as it was, its \<open>Send\<close> queue included, and when the loop visits the connection it
  logs the failure and returns an error; \<^verbatim>\<open>broadcastVoiceMessage\<close>, which looks the key up
  under the connection id, does the same. Both return: the node goes on.
\<close>

theorem no_peer_key_skipped:
  assumes nokey: "peerKeys (cryptoManager en) nodeID = None"
  shows "EncryptMessage lib (cryptoManager en) seed now nodeID plaintext t =
           Inl (ErrNoPublicKeyForPeer nodeID) \<and>
         (\<forall>c peer. Peers en c = Some peer \<and> peerIDMap en c = Some nodeID \<longrightarrow>
            Peers (snd (broadcastEncrypted lib order plaintext t en)) c = Some peer \<and>
            (c \<in> set order \<longrightarrow>
               fst (broadcastEncrypted lib order plaintext t en) \<noteq> None \<and>
               (''Failed to encrypt message for %s (%s): %v'',
                  [Str c, Str nodeID, Err (ErrNoPublicKeyForPeer nodeID)])
                 \<in> set (logs (snd (broadcastEncrypted lib order plaintext t en))))) \<and>
         (\<forall>peer. Peers en nodeID = Some peer \<longrightarrow>
            Peers (snd (broadcastVoiceMessage lib order voiceMsg en)) nodeID = Some peer \<and>
            (nodeID \<in> set order \<longrightarrow>
               (''Failed to encrypt voice message for %s: %v'',
                  [Str nodeID, Err (ErrNoPublicKeyForPeer nodeID)])
                 \<in> set (logs (snd (broadcastVoiceMessage lib order voiceMsg en)))))"
proof (intro conjI allI impI)
  show "EncryptMessage lib (cryptoManager en) seed now nodeID plaintext t =
          Inl (ErrNoPublicKeyForPeer nodeID)"
    using nokey by (simp add: EncryptMessage_def)
next
  fix c peer
  assume cp: "Peers en c = Some peer \<and> peerIDMap en c = Some nodeID"
  with nokey have k: "keyless c peer nodeID en"
    by (simp add: keyless_def)
  obtain e' en' where run: "broadcastEncrypted lib order plaintext t en = (e', en')"
    by (cases "broadcastEncrypted lib order plaintext t en")
  then have f: "fold (broadcastEncrypted_body lib plaintext t) order (None, en) = (e', en')"
    by (simp add: broadcastEncrypted_def)
  note r = broadcastEncrypted_fold_keyless [OF k f]
  show "Peers (snd (broadcastEncrypted lib order plaintext t en)) c = Some peer"
    using r run by (simp add: keyless_def)
  assume "c \<in> set order"
  with r run show "fst (broadcastEncrypted lib order plaintext t en) \<noteq> None"
    by simp
  from r run \<open>c \<in> set order\<close>
  show "(''Failed to encrypt message for %s (%s): %v'',
          [Str c, Str nodeID, Err (ErrNoPublicKeyForPeer nodeID)])
         \<in> set (logs (snd (broadcastEncrypted lib order plaintext t en)))"
    by simp
next
  fix peer
  assume p: "Peers en nodeID = Some peer"
  obtain e' en' where run: "broadcastVoiceMessage lib order voiceMsg en = (e', en')"
    by (cases "broadcastVoiceMessage lib order voiceMsg en")
  then have f: "fold (broadcastVoiceMessage_body lib (json_Marshal_VoiceMessage lib voiceMsg)) order
                  (None, en) = (e', en')"
    by (simp add: broadcastVoiceMessage_def)
  note r = broadcastVoiceMessage_fold_keyless [OF p nokey f]
  show "Peers (snd (broadcastVoiceMessage lib order voiceMsg en)) nodeID = Some peer"
    using r run by simp
  assume "nodeID \<in> set order"
  with r run
  show "(''Failed to encrypt voice message for %s: %v'',
          [Str nodeID, Err (ErrNoPublicKeyForPeer nodeID)])
         \<in> set (logs (snd (broadcastVoiceMessage lib order voiceMsg en)))"
    by simp
qed

theorem no_peer_key_skipped_witness:
  "peerKeys (cryptoManager
      ((NewEnhancedNode ''10.0.0.1:7001'' (demo_key 5) (\<lambda>k. []) 0)
         \<lparr>Peers := [''127.0.0.1:50001'' \<mapsto>
                     \<lparr>Peer_ID = ''127.0.0.1:50001'', Conn = 1, Send = [], Done = False\<rparr>],
          peerIDMap := [''127.0.0.1:50001'' \<mapsto> ''10.0.0.2:7002'']\<rparr>)) ''10.0.0.2:7002'' = None \<and>
   Peers (snd (broadcastEncrypted plain_lib [''127.0.0.1:50001''] ''hello'' ''text''
      ((NewEnhancedNode ''10.0.0.1:7001'' (demo_key 5) (\<lambda>k. []) 0)
         \<lparr>Peers := [''127.0.0.1:50001'' \<mapsto>
                     \<lparr>Peer_ID = ''127.0.0.1:50001'', Conn = 1, Send = [], Done = False\<rparr>],
          peerIDMap := [''127.0.0.1:50001'' \<mapsto> ''10.0.0.2:7002'']\<rparr>))) ''127.0.0.1:50001'' =
     Some \<lparr>Peer_ID = ''127.0.0.1:50001'', Conn = 1, Send = [], Done = False\<rparr> \<and>
   fst (broadcastEncrypted plain_lib [''127.0.0.1:50001''] ''hello'' ''text''
      ((NewEnhancedNode ''10.0.0.1:7001'' (demo_key 5) (\<lambda>k. []) 0)
         \<lparr>Peers := [''127.0.0.1:50001'' \<mapsto>
                     \<lparr>Peer_ID = ''127.0.0.1:50001'', Conn = 1, Send = [], Done = False\<rparr>],
          peerIDMap := [''127.0.0.1:50001'' \<mapsto> ''10.0.0.2:7002'']\<rparr>)) \<noteq> None"
proof -
  let ?en = "(NewEnhancedNode ''10.0.0.1:7001'' (demo_key 5) (\<lambda>k. []) 0)
         \<lparr>Peers := [''127.0.0.1:50001'' \<mapsto>
                     \<lparr>Peer_ID = ''127.0.0.1:50001'', Conn = 1, Send = [], Done = False\<rparr>],
          peerIDMap := [''127.0.0.1:50001'' \<mapsto> ''10.0.0.2:7002'']\<rparr>"
  have nokey: "peerKeys (cryptoManager ?en) ''10.0.0.2:7002'' = None"
    by (simp add: NewEnhancedNode_def NewCryptoManager_def)
  have conn: "Peers ?en ''127.0.0.1:50001'' =
                Some \<lparr>Peer_ID = ''127.0.0.1:50001'', Conn = 1, Send = [], Done = False\<rparr> \<and>
              peerIDMap ?en ''127.0.0.1:50001'' = Some ''10.0.0.2:7002''"
    by simp
  have visited: "''127.0.0.1:50001'' \<in> set [''127.0.0.1:50001'']"
    by simp
  from no_peer_key_skipped [OF nokey, of plain_lib "[]" 0 "''hello''" "''text''"
      "[''127.0.0.1:50001'']"
      "\<lparr>vm_type = ''voice'', vm_audio_data = [], vm_duration = 1, vm_sample_rate = 44100,
        vm_format = ''mp3''\<rparr>"] conn visited nokey
  show ?thesis by blast
qed

section \<open>Routing of plaintext messages\<close>

text \<open>Neither a command nor a gossip payload parses as JSON, whatever the decoder.\<close>

lemma not_json_slash: "json_Unmarshal decode (CHR ''/'' # rest) = None"
  by (simp add: json_Unmarshal_def)

lemma not_json_gossip: "json_Unmarshal decode (''GOSSIP_PEERS:'' @ rest) = None"
  by (simp add: json_Unmarshal_def)

text \<open>
  Claim C1 as stated fails on both halves: \<open>/hello\<close> from a peer does not reach the UI
  channel, and a gossip payload reaches the UI channel and not \<open>PeerListGossip\<close>.
\<close>

theorem router_counterexample:
  "(case EnhancedNode_handleIncomingMessage plain_lib [''127.0.0.1:50001'']
           (from_peer ''10.0.0.2:7002'' ''/hello'') demo_connected of
      Inr en \<Rightarrow> uiChannel en = []
    | Inl p \<Rightarrow> False) \<and>
   (case EnhancedNode_handleIncomingMessage plain_lib [''127.0.0.1:50001'']
           (from_peer ''10.0.0.2:7002'' ''GOSSIP_PEERS:10.0.0.3:7003,10.0.0.4:7004'') demo_connected of
      Inr en \<Rightarrow>
        PeerListGossip en = [] \<and>
        uiChannel en = [from_peer ''10.0.0.2:7002'' ''GOSSIP_PEERS:10.0.0.3:7003,10.0.0.4:7004'']
    | Inl p \<Rightarrow> False)"
  by (simp add: EnhancedNode_handleIncomingMessage_def handleDecryptedMessage_def
      handleEnhancedCLICommand_def HasPrefix_def json_Unmarshal_def from_peer_def
      demo_connected_def demo_node_def NewEnhancedNode_def ui_send_def remember_sender_def)

text \<open>\<^verbatim>\<open>Node.handleIncomingMessage\<close> of message.go, which the event loop of
  \<^verbatim>\<open>StartEnhanced\<close> does not call, does feed the same payload to \<open>PeerListGossip\<close>.\<close>

lemma Node_handleIncomingMessage_gossip:
  "PeerListGossip (Node_handleIncomingMessage
      (from_peer ''10.0.0.2:7002'' ''GOSSIP_PEERS:10.0.0.3:7003,10.0.0.4:7004'') demo_connected) =
     [[''10.0.0.3:7003'', ''10.0.0.4:7004'']] \<and>
   uiChannel (Node_handleIncomingMessage
      (from_peer ''10.0.0.2:7002'' ''GOSSIP_PEERS:10.0.0.3:7003,10.0.0.4:7004'') demo_connected) = []"
  by (simp add: Node_handleIncomingMessage_def HasPrefix_def TrimPrefix_def from_peer_def
      demo_connected_def demo_node_def NewEnhancedNode_def)

text \<open>
  Claim C1, amended. A payload that is no key exchange, does not parse as an envelope
  and does not begin with \<open>GOSSIP_PEERS:\<close> is forwarded to the UI channel verbatim
  when it does not begin with \<open>/\<close>; when it does and the sender is not the node itself,
  nothing is forwarded and only the sender is remembered.
\<close>

theorem plaintext_routing:
  assumes "\<not> HasPrefix (Content msg) ''KEY_EXCHANGE:''"
    and "json_Unmarshal (json_Decode_EncryptedMessage lib) (Content msg) = None"
    and "\<not> HasPrefix (Content msg) ''GOSSIP_PEERS:''"
  shows "(\<not> HasPrefix (Content msg) ''/'' \<longrightarrow>
            EnhancedNode_handleIncomingMessage lib order msg en =
              Inr ((remember_sender msg en)\<lparr>uiChannel := uiChannel en @ [msg]\<rparr>)) \<and>
         (HasPrefix (Content msg) ''/'' \<and> SenderID msg \<noteq> ID en \<longrightarrow>
            EnhancedNode_handleIncomingMessage lib order msg en = Inr (remember_sender msg en))"
  using assms
  by (simp add: EnhancedNode_handleIncomingMessage_def handleDecryptedMessage_def
      handleEnhancedCLICommand_def remember_sender_def ui_send_def)

theorem plaintext_routing_witness:
  "EnhancedNode_handleIncomingMessage plain_lib [''127.0.0.1:50001'']
      (from_peer ''10.0.0.2:7002'' ''hello'') demo_connected =
     Inr ((remember_sender (from_peer ''10.0.0.2:7002'' ''hello'') demo_connected)
            \<lparr>uiChannel := uiChannel demo_connected @ [from_peer ''10.0.0.2:7002'' ''hello'']\<rparr>) \<and>
   EnhancedNode_handleIncomingMessage plain_lib [''127.0.0.1:50001'']
      (from_peer ''10.0.0.2:7002'' ''/quit'') demo_connected =
     Inr (remember_sender (from_peer ''10.0.0.2:7002'' ''/quit'') demo_connected)"
proof -
  have plain: "\<not> HasPrefix (Content (from_peer ''10.0.0.2:7002'' ''hello'')) ''KEY_EXCHANGE:'' \<and>
      json_Unmarshal (json_Decode_EncryptedMessage plain_lib)
        (Content (from_peer ''10.0.0.2:7002'' ''hello'')) = None \<and>
      \<not> HasPrefix (Content (from_peer ''10.0.0.2:7002'' ''hello'')) ''GOSSIP_PEERS:'' \<and>
      \<not> HasPrefix (Content (from_peer ''10.0.0.2:7002'' ''hello'')) ''/''"
    by (simp add: from_peer_def HasPrefix_def json_Unmarshal_def)
  have command: "\<not> HasPrefix (Content (from_peer ''10.0.0.2:7002'' ''/quit'')) ''KEY_EXCHANGE:'' \<and>
      json_Unmarshal (json_Decode_EncryptedMessage plain_lib)
        (Content (from_peer ''10.0.0.2:7002'' ''/quit'')) = None \<and>
      \<not> HasPrefix (Content (from_peer ''10.0.0.2:7002'' ''/quit'')) ''GOSSIP_PEERS:'' \<and>
      HasPrefix (Content (from_peer ''10.0.0.2:7002'' ''/quit'')) ''/'' \<and>
      SenderID (from_peer ''10.0.0.2:7002'' ''/quit'') \<noteq> ID demo_connected"
    by (simp add: from_peer_def HasPrefix_def json_Unmarshal_def demo_connected_def demo_node_def
        NewEnhancedNode_def)
  from plain command
    plaintext_routing [of "from_peer ''10.0.0.2:7002'' ''hello''" plain_lib
      "[''127.0.0.1:50001'']" demo_connected]
    plaintext_routing [of "from_peer ''10.0.0.2:7002'' ''/quit''" plain_lib
      "[''127.0.0.1:50001'']" demo_connected]
  show ?thesis by blast
qed

section \<open>The connection-to-node map\<close>

lemma peerIDMap_logf [simp]: "peerIDMap (logf fmt args en) = peerIDMap en"
  by (simp add: logf_def)

lemma peerIDMap_ui_send [simp]: "peerIDMap (ui_send msg en) = peerIDMap en"
  by (simp add: ui_send_def)

lemma peerIDMap_spawn [simp]: "peerIDMap (spawn g en) = peerIDMap en"
  by (simp add: spawn_def)

lemma peerIDMap_record_call [simp]: "peerIDMap (record_call c en) = peerIDMap en"
  by (simp add: record_call_def)

lemma peerIDMap_update_transfer [simp]: "peerIDMap (update_transfer a f en) = peerIDMap en"
  by (simp add: update_transfer_def)

lemma peerIDMap_fail_transfer [simp]: "peerIDMap (fail_transfer a en) = peerIDMap en"
  by (simp add: fail_transfer_def)

lemma peerIDMap_store_transfer [simp]: "peerIDMap (store_transfer t en) = peerIDMap en"
  by (simp add: store_transfer_def)

lemma peerIDMap_delete_transfer [simp]: "peerIDMap (delete_transfer fileID en) = peerIDMap en"
  by (simp add: delete_transfer_def)

lemma peerIDMap_try_send:
  "try_send peerID peer payload en = Some en' \<Longrightarrow> peerIDMap en' = peerIDMap en"
  by (auto simp: try_send_def split: if_splits)

lemma peerIDMap_node_EncryptMessage [simp]:
  "peerIDMap (snd (node_EncryptMessage lib peerID plaintext t en)) = peerIDMap en"
  by (simp add: node_EncryptMessage_def)

lemma peerIDMap_sendFileMessage:
  assumes "sendFileMessage lib peerID fileMsg en = (r, en')"
  shows "peerIDMap en' = peerIDMap en"
proof -
  obtain r1 en1 where enc:
    "node_EncryptMessage lib peerID (json_Marshal_FileMessage lib fileMsg) ''file'' en = (r1, en1)"
    by (cases "node_EncryptMessage lib peerID (json_Marshal_FileMessage lib fileMsg) ''file'' en")
  then have "peerIDMap en1 = peerIDMap en"
    using peerIDMap_node_EncryptMessage [of lib peerID "json_Marshal_FileMessage lib fileMsg" "''file''" en]
    by simp
  with enc assms show ?thesis
    by (auto simp: sendFileMessage_def Let_def split: sum.splits option.splits
        dest: peerIDMap_try_send)
qed

lemma peerIDMap_SendFile:
  assumes "SendFile lib peerID filePath en = (r, en')"
  shows "peerIDMap en' = peerIDMap en"
  using assms
  by (auto simp: SendFile_def Let_def split: option.splits prod.splits
      dest!: peerIDMap_sendFileMessage)

lemma peerIDMap_handleFileRequest [simp]:
  "peerIDMap (handleFileRequest lib peerID fileMsg en) = peerIDMap en"
  by (auto simp: handleFileRequest_def Let_def split: option.splits prod.splits
      dest!: peerIDMap_sendFileMessage)

lemma peerIDMap_handleFileAccept [simp]:
  "peerIDMap (handleFileAccept peerID fileMsg en) = peerIDMap en"
  by (simp add: handleFileAccept_def split: option.splits)

lemma peerIDMap_handleFileReject [simp]:
  "peerIDMap (handleFileReject lib peerID fileMsg en) = peerIDMap en"
  by (simp add: handleFileReject_def Let_def split: option.splits)

lemma peerIDMap_handleFileChunk:
  "handleFileChunk lib peerID fileMsg en = Inr en' \<Longrightarrow> peerIDMap en' = peerIDMap en"
  by (auto simp: handleFileChunk_def Let_def split: option.splits if_splits sum.splits)

lemma peerIDMap_handleFileComplete [simp]:
  "peerIDMap (handleFileComplete lib peerID fileMsg en) = peerIDMap en"
  by (simp add: handleFileComplete_def Let_def split: option.splits sum.splits)

lemma peerIDMap_HandleFileMessage:
  "HandleFileMessage lib peerID fileMsg en = Inr en' \<Longrightarrow> peerIDMap en' = peerIDMap en"
  by (auto simp: HandleFileMessage_def split: if_splits dest: peerIDMap_handleFileChunk)

lemma peerIDMap_fileManager_HandleCLICommand [simp]:
  "peerIDMap (fileManager_HandleCLICommand lib command en) = peerIDMap en"
  by (auto simp: fileManager_HandleCLICommand_def Let_def split: option.splits prod.splits
      dest!: peerIDMap_SendFile)

lemma peerIDMap_broadcast_body [simp]:
  "peerIDMap (broadcast_body networkMsg peerID n) = peerIDMap n"
  by (auto simp: broadcast_body_def split: option.splits dest: peerIDMap_try_send)

lemma peerIDMap_broadcast [simp]: "peerIDMap (broadcast order msg n) = peerIDMap n"
  unfolding broadcast_def by (induction order arbitrary: n) simp_all

lemma peerIDMap_handleCLIInput [simp]: "peerIDMap (handleCLIInput order input n) = peerIDMap n"
  by (simp add: handleCLIInput_def Let_def)

lemma peerIDMap_node_EncryptMessageD:
  "node_EncryptMessage lib peerID plaintext t en = (r, en1) \<Longrightarrow> peerIDMap en1 = peerIDMap en"
  by (auto simp: node_EncryptMessage_def split: if_splits)

lemma peerIDMap_broadcastEncrypted_body [simp]:
  "peerIDMap (snd (broadcastEncrypted_body lib plaintext t p acc)) = peerIDMap (snd acc)"
  by (cases acc)
    (auto simp: broadcastEncrypted_body_def split: option.splits sum.splits prod.splits
      dest!: peerIDMap_try_send peerIDMap_node_EncryptMessageD)

lemma peerIDMap_broadcastEncrypted [simp]:
  "peerIDMap (snd (broadcastEncrypted lib order plaintext t en)) = peerIDMap en"
proof -
  have "peerIDMap (snd (fold (broadcastEncrypted_body lib plaintext t) order acc)) = peerIDMap (snd acc)"
    for acc
    by (induction order arbitrary: acc) simp_all
  then show ?thesis by (simp add: broadcastEncrypted_def)
qed

lemma peerIDMap_handleEnhancedCLICommand [simp]:
  "peerIDMap (handleEnhancedCLICommand lib order input senderID en) = peerIDMap en"
proof -
  obtain r en1 where "SendEncryptedText lib order input en = (r, en1)"
    by (cases "SendEncryptedText lib order input en")
  moreover from this have "peerIDMap en1 = peerIDMap en"
    using peerIDMap_broadcastEncrypted [of lib order input "''text''" en]
    by (simp add: SendEncryptedText_def)
  ultimately show ?thesis
    by (simp add: handleEnhancedCLICommand_def split: option.splits)
qed

lemma peerIDMap_handleDecryptedMessage [simp]:
  "peerIDMap (handleDecryptedMessage lib order msg en) = peerIDMap en"
  by (simp add: handleDecryptedMessage_def)

lemma peerIDMap_handleKeyExchange [simp]:
  "peerIDMap (handleKeyExchange lib peerID keyData en) = peerIDMap en"
  by (simp add: handleKeyExchange_def split: sum.splits)

text \<open>
  Claim C4, amended. After \<^verbatim>\<open>EnhancedNode.handleIncomingMessage\<close> the map holds the
  sender of the message under its connection id, whatever it held before, when both ids
  are non-empty and the sender is not the node itself; otherwise the map is as it was.
\<close>

theorem peerIDMap_last_sender:
  assumes "EnhancedNode_handleIncomingMessage lib order msg en = Inr en'"
  shows "peerIDMap en' =
           (if FromPeerID msg \<noteq> [] \<and> SenderID msg \<noteq> [] \<and> SenderID msg \<noteq> ID en
            then (peerIDMap en)(FromPeerID msg \<mapsto> SenderID msg)
            else peerIDMap en)"
proof -
  have "peerIDMap en' = peerIDMap (remember_sender msg en)"
    using assms
    by (auto simp: EnhancedNode_handleIncomingMessage_def Let_def
        split: if_splits option.splits sum.splits prod.splits
        dest: peerIDMap_HandleFileMessage)
  then show ?thesis
    by (simp add: remember_sender_def)
qed

theorem peerIDMap_last_sender_witness:
  "\<exists>en'. EnhancedNode_handleIncomingMessage plain_lib [''127.0.0.1:50001'']
            (from_peer ''10.0.0.2:7002'' ''hello'') demo_connected = Inr en' \<and>
         peerIDMap en' = [''127.0.0.1:50001'' \<mapsto> ''10.0.0.2:7002'']"
proof -
  have run: "EnhancedNode_handleIncomingMessage plain_lib [''127.0.0.1:50001'']
               (from_peer ''10.0.0.2:7002'' ''hello'') demo_connected =
             Inr (ui_send (from_peer ''10.0.0.2:7002'' ''hello'')
                    (remember_sender (from_peer ''10.0.0.2:7002'' ''hello'') demo_connected))"
    by (simp add: EnhancedNode_handleIncomingMessage_def handleDecryptedMessage_def HasPrefix_def
        json_Unmarshal_def from_peer_def)
  have "peerIDMap (ui_send (from_peer ''10.0.0.2:7002'' ''hello'')
                    (remember_sender (from_peer ''10.0.0.2:7002'' ''hello'') demo_connected)) =
        [''127.0.0.1:50001'' \<mapsto> ''10.0.0.2:7002'']"
    using peerIDMap_last_sender [OF run]
    by (simp add: from_peer_def demo_connected_def demo_node_def NewEnhancedNode_def)
  with run show ?thesis by blast
qed

text \<open>
  Claim C4 as stated fails: a second message over the same connection with another
  sender id replaces the node id recorded by the first.
\<close>

theorem peerIDMap_counterexample:
  "(case EnhancedNode_handleIncomingMessage plain_lib [''127.0.0.1:50001'']
           (from_peer ''10.0.0.2:7002'' ''hello'') demo_connected of
      Inr en1 \<Rightarrow>
        peerIDMap en1 ''127.0.0.1:50001'' = Some ''10.0.0.2:7002'' \<and>
        (case EnhancedNode_handleIncomingMessage plain_lib [''127.0.0.1:50001'']
                (from_peer ''10.0.0.3:7003'' ''hello again'') en1 of
           Inr en2 \<Rightarrow> peerIDMap en2 ''127.0.0.1:50001'' = Some ''10.0.0.3:7003''
         | Inl p \<Rightarrow> False)
    | Inl p \<Rightarrow> False)"
  by (simp add: EnhancedNode_handleIncomingMessage_def handleDecryptedMessage_def HasPrefix_def
      json_Unmarshal_def from_peer_def remember_sender_def ui_send_def
      demo_connected_def demo_node_def NewEnhancedNode_def)

section \<open>Duplicate connections\<close>

text \<open>
  Claim C9. When the connection id of a new peer is in the peer table, \<^verbatim>\<open>addPeer\<close> closes
  the new connection, starts no goroutine and leaves the table as it was; otherwise it
  adds the one entry. \<^verbatim>\<open>handleServer\<close> closes an accepted connection whose remote address
  is in the table and hands no peer over. \<^verbatim>\<open>connectToPeer\<close> with the node's own id, or
  with an address in the table, dials nothing and hands no peer over. The table is a map:
  one entry per connection id.
\<close>

theorem duplicate_connections_refused:
  "(Peers n (Peer_ID peer) \<noteq> None \<longrightarrow>
      Peers (addPeer lib peer n) = Peers n \<and>
      closedConns (addPeer lib peer n) = closedConns n @ [Conn peer] \<and>
      goroutines (addPeer lib peer n) = goroutines n) \<and>
   (Peers n (Peer_ID peer) = None \<longrightarrow>
      Peers (addPeer lib peer n) = (Peers n)(Peer_ID peer \<mapsto> peer)) \<and>
   (Peers n remoteAddr \<noteq> None \<longrightarrow>
      Peers (handleServer_accept conn remoteAddr n) = Peers n \<and>
      closedConns (handleServer_accept conn remoteAddr n) = closedConns n @ [conn] \<and>
      NewPeer (handleServer_accept conn remoteAddr n) = NewPeer n) \<and>
   (addr = ID n \<or> Peers n addr \<noteq> None \<longrightarrow>
      dialed (connectToPeer lib addr n) = dialed n \<and>
      NewPeer (connectToPeer lib addr n) = NewPeer n \<and>
      Peers (connectToPeer lib addr n) = Peers n)"
  by (auto simp: addPeer_def handleServer_accept_def connectToPeer_def logf_def spawn_def ui_send_def)

theorem duplicate_connections_refused_witness:
  "Peers demo_connected (Peer_ID (demo_peer\<lparr>Conn := 2\<rparr>)) \<noteq> None \<and>
   Peers (addPeer plain_lib (demo_peer\<lparr>Conn := 2\<rparr>) demo_connected) = Peers demo_connected \<and>
   closedConns (addPeer plain_lib (demo_peer\<lparr>Conn := 2\<rparr>) demo_connected) = [2] \<and>
   closedConns (handleServer_accept 3 ''127.0.0.1:50001'' demo_connected) = [3] \<and>
   dialed (connectToPeer plain_lib ''10.0.0.1:7001'' demo_connected) = []"
proof -
  have present: "Peers demo_connected (Peer_ID (demo_peer\<lparr>Conn := 2\<rparr>)) \<noteq> None"
    "Peers demo_connected ''127.0.0.1:50001'' \<noteq> None"
    by (simp_all add: demo_connected_def demo_peer_def)
  have self: "''10.0.0.1:7001'' = ID demo_connected"
    by (simp add: demo_connected_def demo_node_def NewEnhancedNode_def)
  have empty: "closedConns demo_connected = []" "dialed demo_connected = []"
    by (simp_all add: demo_connected_def demo_node_def NewEnhancedNode_def)
  from duplicate_connections_refused
    [of demo_connected "demo_peer\<lparr>Conn := 2\<rparr>" plain_lib "''127.0.0.1:50001''" 3 "''10.0.0.1:7001''"]
    present self empty
  show ?thesis by simp
qed

section \<open>File transfers at the end of their life\<close>

lemma sendFileMessage_no_key:
  assumes "peerKeys (cryptoManager en) peerID = None"
  shows "sendFileMessage lib peerID fileMsg en =
           (Some (ErrEncryptFileMessage (ErrNoPublicKeyForPeer peerID)), en)"
  using assms
  by (simp add: sendFileMessage_def node_EncryptMessage_def EncryptMessage_def)

lemma demo_request:
  "handleFileRequest lib ''10.0.0.2:7002'' (request_msg n) demo_connected =
     logf ''Failed to send accept message: %v''
       [Err (ErrEncryptFileMessage (ErrNoPublicKeyForPeer ''10.0.0.2:7002''))]
       (store_transfer
          \<lparr>FileID = ''f1'', FileName = ''a.txt'', FileSize = 5, Chunks = fmempty,
           TotalChunks = n, Status = ''active'', Progress = 0, PeerID = ''10.0.0.2:7002'',
           IsOutgoing = False, FilePath = []\<rparr>
          (logf ''Received file transfer request from %s: %s (%d bytes)''
             [Str ''10.0.0.2:7002'', Str ''a.txt'', Num 5] demo_connected))"
  by (simp add: handleFileRequest_def Let_def request_msg_def zero_FileMessage_def
      sendFileMessage_def node_EncryptMessage_def EncryptMessage_def store_transfer_def logf_def
      demo_connected_def demo_node_def NewEnhancedNode_def NewCryptoManager_def)

lemma demo_request_fields:
  "activeTransfers (handleFileRequest lib ''10.0.0.2:7002'' (request_msg n) demo_connected) ''f1'' = Some 0"
  "heap (handleFileRequest lib ''10.0.0.2:7002'' (request_msg n) demo_connected) 0 =
     \<lparr>FileID = ''f1'', FileName = ''a.txt'', FileSize = 5, Chunks = fmempty,
      TotalChunks = n, Status = ''active'', Progress = 0, PeerID = ''10.0.0.2:7002'',
      IsOutgoing = False, FilePath = []\<rparr>"
  unfolding demo_request
  by (simp_all add: store_transfer_def logf_def demo_connected_def demo_node_def
      NewEnhancedNode_def)

lemma handleFileComplete_incomplete:
  assumes "activeTransfers en (fm_file_id fileMsg) = Some a"
    and "int (map_len (Chunks (heap en a))) \<noteq> TotalChunks (heap en a)"
  shows "handleFileComplete lib peerID fileMsg en =
           fail_transfer a
             (logf ''Incomplete file: have %d chunks, expected %d''
                [Num (int (map_len (Chunks (heap en a)))), Num (TotalChunks (heap en a))] en)"
  using assms by (simp add: handleFileComplete_def Let_def)

lemma file_message_types:
  "fm_type (request_msg n) = ''request''" "fm_type accept_msg = ''accept''"
  "fm_type complete_msg = ''complete''" "fm_type (chunk_msg i n payload digest) = ''chunk''"
  "fm_file_id (request_msg n) = ''f1''" "fm_file_id accept_msg = ''f1''"
  "fm_file_id complete_msg = ''f1''" "fm_file_id (chunk_msg i n payload digest) = ''f1''"
  by (simp_all add: request_msg_def accept_msg_def complete_msg_def chunk_msg_def)

lemma demo_request_complete:
  "handle_file_messages lib ''10.0.0.2:7002'' [request_msg 1, complete_msg] demo_connected =
     Inr (fail_transfer 0
            (logf ''Incomplete file: have %d chunks, expected %d'' [Num 0, Num 1]
               (handleFileRequest lib ''10.0.0.2:7002'' (request_msg 1) demo_connected)))"
proof -
  let ?s1 = "handleFileRequest lib ''10.0.0.2:7002'' (request_msg 1) demo_connected"
  have "handleFileComplete lib ''10.0.0.2:7002'' complete_msg ?s1 =
          fail_transfer 0
            (logf ''Incomplete file: have %d chunks, expected %d''
               [Num (int (map_len (Chunks (heap ?s1 0)))), Num (TotalChunks (heap ?s1 0))] ?s1)"
    by (rule handleFileComplete_incomplete)
      (simp_all add: file_message_types demo_request_fields map_len_def fcard_fempty)
  then show ?thesis
    by (simp add: HandleFileMessage_def file_message_types demo_request_fields map_len_def
        fcard_fempty)
qed

text \<open>
  Claim C3 on the code: after the offer of a one-chunk file and a \<open>complete\<close> message with
  no chunk in between, \<^verbatim>\<open>handleFileComplete\<close> has set the transfer to \<open>failed\<close> and
  returned with its entry still in \<open>activeTransfers\<close>.
\<close>

theorem failed_transfer_left_in_table:
  "case handle_file_messages lib ''10.0.0.2:7002'' [request_msg 1, complete_msg] demo_connected of
     Inr en \<Rightarrow> activeTransfers en ''f1'' = Some 0 \<and> Status (heap en 0) = ''failed''
   | Inl p \<Rightarrow> False"
  unfolding demo_request_complete
  by (simp add: fail_transfer_def update_transfer_def logf_def demo_request_fields)

text \<open>
  Claim C2 on the code: the transfer that the \<open>complete\<close> message left \<open>failed\<close> in the
  table is set to \<open>active\<close> by an \<open>accept\<close> message that follows.
\<close>

theorem failed_transfer_made_active:
  "case handle_file_messages lib ''10.0.0.2:7002'' [request_msg 1, complete_msg] demo_connected of
     Inr en1 \<Rightarrow>
       Status (heap en1 0) = ''failed'' \<and>
       (case HandleFileMessage lib ''10.0.0.2:7002'' accept_msg en1 of
          Inr en2 \<Rightarrow> Status (heap en2 0) = ''active''
        | Inl p \<Rightarrow> False)
   | Inl p \<Rightarrow> False"
  unfolding demo_request_complete
  by (simp add: HandleFileMessage_def handleFileAccept_def file_message_types fail_transfer_def
      update_transfer_def logf_def spawn_def demo_request_fields)

text \<open>
  Claim C10 on the code: a chunk message that passes the checksum test, for a transfer
  in the table whose \<open>TotalChunks\<close> is 0, ends \<^verbatim>\<open>handleFileChunk\<close> in the panic of an
  integer division by zero.
\<close>

theorem handleFileChunk_divides_by_zero:
  assumes "activeTransfers en (fm_file_id fileMsg) = Some a"
    and "TotalChunks (heap en a) = 0"
    and "base64_DecodeString lib (fm_data fileMsg) = Some chunkData"
    and "hex (md5_Sum lib chunkData) = fm_checksum fileMsg"
  shows "handleFileChunk lib peerID fileMsg en = Inl IntegerDivideByZero"
  using assms
  by (simp add: handleFileChunk_def Let_def update_transfer_def go_div_def)

theorem handleFileChunk_divides_by_zero_witness:
  "handle_file_messages plain_lib ''10.0.0.2:7002'' [request_msg 0, chunk_msg 0 0 [] []]
     demo_connected = Inl IntegerDivideByZero"
proof -
  let ?s1 = "handleFileRequest plain_lib ''10.0.0.2:7002'' (request_msg 0) demo_connected"
  have "handleFileChunk plain_lib ''10.0.0.2:7002'' (chunk_msg 0 0 [] []) ?s1 =
          Inl IntegerDivideByZero"
  proof (rule handleFileChunk_divides_by_zero)
    show "activeTransfers ?s1 (fm_file_id (chunk_msg 0 0 [] [])) = Some 0"
      by (simp add: file_message_types demo_request_fields)
    show "TotalChunks (heap ?s1 0) = 0"
      by (simp add: demo_request_fields)
    show "base64_DecodeString plain_lib (fm_data (chunk_msg 0 0 [] [])) = Some []"
      by (simp add: plain_lib_def chunk_msg_def)
    show "hex (md5_Sum plain_lib []) = fm_checksum (chunk_msg 0 0 [] [])"
      by (simp add: plain_lib_def chunk_msg_def hex_def)
  qed
  then show ?thesis
    by (simp add: HandleFileMessage_def file_message_types)
qed

text \<open>
  Claim C5 on the code, for a chunk message whose transfer is in the table and whose
  data decodes: on a checksum mismatch the handler returns with the transfer records
  and the table as they were; on a match with \<open>TotalChunks \<noteq> 0\<close> the bytes are stored
  under the chunk index and the progress is \<open>|chunks| * 100 / TotalChunks\<close>; on a match
  with \<open>TotalChunks = 0\<close> the handler panics.
\<close>

theorem handleFileChunk_checks_md5:
  assumes present: "activeTransfers en (fm_file_id fileMsg) = Some a"
    and decoded: "base64_DecodeString lib (fm_data fileMsg) = Some chunkData"
  shows "(hex (md5_Sum lib chunkData) \<noteq> fm_checksum fileMsg \<longrightarrow>
            (\<exists>en'. handleFileChunk lib peerID fileMsg en = Inr en' \<and>
                   heap en' = heap en \<and> activeTransfers en' = activeTransfers en)) \<and>
         (hex (md5_Sum lib chunkData) = fm_checksum fileMsg \<and> TotalChunks (heap en a) \<noteq> 0 \<longrightarrow>
            (\<exists>en'. handleFileChunk lib peerID fileMsg en = Inr en' \<and>
                   Chunks (heap en' a) = fmupd (fm_chunk_index fileMsg) chunkData (Chunks (heap en a)) \<and>
                   go_div (int (map_len (Chunks (heap en' a))) * 100) (TotalChunks (heap en a)) =
                     Inr (Progress (heap en' a)))) \<and>
         (hex (md5_Sum lib chunkData) = fm_checksum fileMsg \<and> TotalChunks (heap en a) = 0 \<longrightarrow>
            handleFileChunk lib peerID fileMsg en = Inl IntegerDivideByZero)"
  using assms
  by (auto simp: handleFileChunk_def Let_def update_transfer_def go_div_def logf_def)

theorem handleFileChunk_checks_md5_witness:
  "(\<exists>en'. handleFileChunk plain_lib ''10.0.0.2:7002'' (chunk_msg 0 2 ''hello'' ''68656c6c6f'')
             (handleFileRequest plain_lib ''10.0.0.2:7002'' (request_msg 2) demo_connected) = Inr en' \<and>
          Chunks (heap en' 0) = fmupd 0 ''hello'' fmempty \<and> Progress (heap en' 0) = 50) \<and>
   (\<exists>en'. handleFileChunk plain_lib ''10.0.0.2:7002'' (chunk_msg 0 2 ''hello'' ''00'')
             (handleFileRequest plain_lib ''10.0.0.2:7002'' (request_msg 2) demo_connected) = Inr en' \<and>
          Chunks (heap en' 0) = fmempty \<and> Progress (heap en' 0) = 0) \<and>
   handleFileChunk plain_lib ''10.0.0.2:7002'' (chunk_msg 0 0 ''hello'' ''68656c6c6f'')
     (handleFileRequest plain_lib ''10.0.0.2:7002'' (request_msg 0) demo_connected) =
     Inl IntegerDivideByZero"
proof -
  let ?s = "\<lambda>n. handleFileRequest plain_lib ''10.0.0.2:7002'' (request_msg n) demo_connected"
  have digest: "hex (md5_Sum plain_lib ''hello'') = ''68656c6c6f''"
    by (simp add: plain_lib_def hex_def hexdigit_def)
  have present: "activeTransfers (?s n) (fm_file_id (chunk_msg i k payload digest')) = Some 0"
    for n i k payload digest'
    by (simp add: file_message_types demo_request_fields)
  have decoded: "base64_DecodeString plain_lib (fm_data (chunk_msg i k ''hello'' digest')) = Some ''hello''"
    for i k digest'
    by (simp add: plain_lib_def chunk_msg_def)
  note good = handleFileChunk_checks_md5
    [OF present [of 2 0 2 "''hello''" "''68656c6c6f''"] decoded [of 0 2 "''68656c6c6f''"],
      where peerID = "''10.0.0.2:7002''"]
  note bad = handleFileChunk_checks_md5
    [OF present [of 2 0 2 "''hello''" "''00''"] decoded [of 0 2 "''00''"],
      where peerID = "''10.0.0.2:7002''"]
  note zero = handleFileChunk_checks_md5
    [OF present [of 0 0 0 "''hello''" "''68656c6c6f''"] decoded [of 0 0 "''68656c6c6f''"],
      where peerID = "''10.0.0.2:7002''"]
  have 1: "\<exists>en'. handleFileChunk plain_lib ''10.0.0.2:7002'' (chunk_msg 0 2 ''hello'' ''68656c6c6f'')
             (?s 2) = Inr en' \<and>
          Chunks (heap en' 0) = fmupd 0 ''hello'' fmempty \<and> Progress (heap en' 0) = 50"
    using good digest
    by (auto simp: chunk_msg_def demo_request_fields map_len_def fcard_finsert_if fcard_fempty go_div_def)
  have 2: "\<exists>en'. handleFileChunk plain_lib ''10.0.0.2:7002'' (chunk_msg 0 2 ''hello'' ''00'')
             (?s 2) = Inr en' \<and>
          Chunks (heap en' 0) = fmempty \<and> Progress (heap en' 0) = 0"
    using bad digest
    by (auto simp: chunk_msg_def demo_request_fields)
  have 3: "handleFileChunk plain_lib ''10.0.0.2:7002'' (chunk_msg 0 0 ''hello'' ''68656c6c6f'')
             (?s 0) = Inl IntegerDivideByZero"
    using zero digest
    by (simp add: chunk_msg_def demo_request_fields)
  from 1 2 3 show ?thesis by blast
qed

section \<open>A failed transfer that completes\<close>

text \<open>Left in the table, the failed transfer also takes the chunk it missed and a
  second \<open>complete\<close> message, which writes the file and sets it to \<open>complete\<close>.\<close>

lemma handle_file_messages_append:
  "handle_file_messages lib peerID (ms @ ns) en =
     (case handle_file_messages lib peerID ms en of
        Inl p \<Rightarrow> Inl p
      | Inr en1 \<Rightarrow> handle_file_messages lib peerID ns en1)"
  by (induction ms arbitrary: en) (simp_all split: sum.splits)

lemma failed_transfer_made_complete:
  "case handle_file_messages plain_lib ''10.0.0.2:7002''
          [request_msg 1, complete_msg, chunk_msg 0 1 ''hello'' ''68656c6c6f'', complete_msg]
          demo_connected of
     Inr en \<Rightarrow> Status (heap en 0) = ''complete'' \<and> activeTransfers en ''f1'' = None
   | Inl p \<Rightarrow> False"
proof -
  let ?s2 = "fail_transfer 0
            (logf ''Incomplete file: have %d chunks, expected %d'' [Num 0, Num 1]
               (handleFileRequest plain_lib ''10.0.0.2:7002'' (request_msg 1) demo_connected))"
  have two: "handle_file_messages plain_lib ''10.0.0.2:7002''
          [request_msg 1, complete_msg, chunk_msg 0 1 ''hello'' ''68656c6c6f'', complete_msg]
          demo_connected =
        handle_file_messages plain_lib ''10.0.0.2:7002''
          [chunk_msg 0 1 ''hello'' ''68656c6c6f'', complete_msg] ?s2"
    using handle_file_messages_append
      [of plain_lib "''10.0.0.2:7002''" "[request_msg 1, complete_msg]"
        "[chunk_msg 0 1 ''hello'' ''68656c6c6f'', complete_msg]" demo_connected]
    unfolding demo_request_complete by simp
  have s2: "activeTransfers ?s2 ''f1'' = Some 0"
    "heap ?s2 0 =
       \<lparr>FileID = ''f1'', FileName = ''a.txt'', FileSize = 5, Chunks = fmempty,
        TotalChunks = 1, Status = ''failed'', Progress = 0, PeerID = ''10.0.0.2:7002'',
        IsOutgoing = False, FilePath = []\<rparr>"
    by (simp_all add: fail_transfer_def update_transfer_def logf_def demo_request_fields)
  have digest: "hex (md5_Sum plain_lib ''hello'') = ''68656c6c6f''"
    by (simp add: plain_lib_def hex_def hexdigit_def)
  obtain s3 where chunk: "handleFileChunk plain_lib ''10.0.0.2:7002''
      (chunk_msg 0 1 ''hello'' ''68656c6c6f'') ?s2 = Inr s3"
    and s3: "activeTransfers s3 ''f1'' = Some 0"
      "heap s3 0 =
       \<lparr>FileID = ''f1'', FileName = ''a.txt'', FileSize = 5, Chunks = fmupd 0 ''hello'' fmempty,
        TotalChunks = 1, Status = ''failed'', Progress = 100, PeerID = ''10.0.0.2:7002'',
        IsOutgoing = False, FilePath = []\<rparr>"
    using s2 digest
    by (simp add: handleFileChunk_def chunk_msg_def plain_lib_def Let_def update_transfer_def
        logf_def go_div_def map_len_def fcard_finsert_if fcard_fempty)
  have fin: "Status (heap (handleFileComplete plain_lib ''10.0.0.2:7002'' complete_msg s3) 0) = ''complete''
    \<and> activeTransfers (handleFileComplete plain_lib ''10.0.0.2:7002'' complete_msg s3) ''f1'' = None"
    using s3
    by (simp add: handleFileComplete_def complete_msg_def plain_lib_def Let_def update_transfer_def
        delete_transfer_def ui_send_def logf_def map_len_def fcard_finsert_if fcard_fempty)
  show ?thesis
    unfolding two
    using chunk fin
    by (simp add: HandleFileMessage_def file_message_types)
qed

section \<open>The paths that remove the entry\<close>

text \<open>\<^verbatim>\<open>handleFileReject\<close> removes the entry of the transfer it fails, and
  \<^verbatim>\<open>handleFileComplete\<close> the entry of the transfer it completes; only the failure
  branches of \<^verbatim>\<open>handleFileComplete\<close> leave theirs.\<close>

lemma handleFileReject_removes_entry:
  "activeTransfers (handleFileReject lib peerID fileMsg en) (fm_file_id fileMsg) = None"
  by (simp add: handleFileReject_def Let_def ui_send_def logf_def delete_transfer_def
      update_transfer_def split: option.splits)

lemma handleFileComplete_success_removes_entry:
  assumes "Status (heap (handleFileComplete lib peerID fileMsg en) a) = ''complete''"
    and "activeTransfers en (fm_file_id fileMsg) = Some a"
    and "Status (heap en a) \<noteq> ''complete''"
  shows "activeTransfers (handleFileComplete lib peerID fileMsg en) (fm_file_id fileMsg) = None"
  using assms
  by (auto simp: handleFileComplete_def Let_def ui_send_def logf_def delete_transfer_def
      update_transfer_def fail_transfer_def split: option.splits sum.splits if_splits)

end
